theory Spec2Isabelle
  imports Complex_Main "HOL-Library.AList" "HOL-Library.Sublist" "HOL-Library.Signed_Division"
begin

section \<open>atlas.js: a shallow embedding of the view-state and tiling core\<close>

text \<open>
  The source is one JavaScript module (atlas.js). Its classes are modelled as records,
  its methods as functions that take the object's state and return the new one, and every
  \<^verbatim>\<open>throw\<close> (explicit or raised by the language) as the \<open>Inl\<close> branch of a sum.

  Numbers. JavaScript has one number type, the IEEE-754 double. The view state and the
  projection below are written over \<open>real\<close>: a finite Number is read as the real it
  denotes and every arithmetic operation as the exact one, so rounding error, overflow to
  \<open>Infinity\<close> and \<open>NaN\<close> are outside that part of the model. Three places are
  modelled in the arithmetic of doubles, on the type \<open>jsnum\<close> with the non-finite values
  and with every result rounded to the nearest double (\<open>fl\<close>): the \<open>NaN\<close> test of the
  \<open>LatLng\<close> constructor, the tile wrap-around \<^verbatim>\<open>_wrapX\<close> with the tile keys built
  from it, and the two subtractions between \<^verbatim>\<open>setView\<close> and
  \<^verbatim>\<open>latLngToContainerPoint\<close> along one axis. The sign of zero is not modelled.
\<close>

subsection \<open>Errors and numbers\<close>

datatype js_error =
    TypeError         \<comment> \<open>raised by the language: calling something that is not a function\<close>
  | InvalidLatLng     \<comment> \<open>\<^verbatim>\<open>throw new Error('Invalid LatLng')\<close>\<close>

datatype jsnum = Finite real | PosInf | NegInf | NaN

definition isNaN :: "jsnum \<Rightarrow> bool" where
  "isNaN v = (case v of NaN \<Rightarrow> True | _ \<Rightarrow> False)"

definition isFinite :: "jsnum \<Rightarrow> bool" where
  "isFinite v = (case v of Finite _ \<Rightarrow> True | _ \<Rightarrow> False)"

text \<open>\<^verbatim>\<open>Math.round\<close> rounds to the nearest integer, a tie towards \<open>+\<infinity>\<close>.\<close>

definition Math_round :: "real \<Rightarrow> real" where
  "Math_round v = of_int \<lfloor>v + 1 / 2\<rfloor>"

text \<open>
  The remainder operator \<^verbatim>\<open>a % b\<close> truncates the quotient towards zero, so the result
  has the sign of the dividend. (For \<open>b = 0\<close> JavaScript gives \<open>NaN\<close>; the only divisor
  in the source is a power of two, which is positive.)
\<close>

definition trunc :: "real \<Rightarrow> int" where
  "trunc q = (if 0 \<le> q then \<lfloor>q\<rfloor> else \<lceil>q\<rceil>)"

definition js_rem :: "real \<Rightarrow> real \<Rightarrow> real" where
  "js_rem a b = a - b * of_int (trunc (a / b))"

text \<open>
  Rounding to the nearest double, ties to the even significand (IEEE-754 binary64): the
  spacing of the doubles around \<open>r\<close> is \<open>ulp r\<close>, with the exponent held at \<open>-1022\<close>
  in the subnormal range; a result whose magnitude reaches \<open>2\<^sup>1\<^sup>0\<^sup>2\<^sup>4\<close> is infinite.
\<close>

definition round_even :: "real \<Rightarrow> int" where
  "round_even q =
     (let f = \<lfloor>q\<rfloor>
      in if q - of_int f < 1 / 2 then f
         else if 1 / 2 < q - of_int f then f + 1
         else if even f then f else f + 1)"

definition ulp :: "real \<Rightarrow> real" where
  "ulp r = 2 powr of_int (max \<lfloor>log 2 \<bar>r\<bar>\<rfloor> (- 1022) - 52)"

definition dbl_limit :: real where
  "dbl_limit = 2 ^ 1024"

definition fl :: "real \<Rightarrow> jsnum" where
  "fl r =
     (if r = 0 then Finite 0
      else
        (let v = of_int (round_even (r / ulp r)) * ulp r
         in if dbl_limit \<le> \<bar>v\<bar> then (if 0 < r then PosInf else NegInf) else Finite v))"

text \<open>
  Addition, multiplication and remainder of Numbers, with the cases of the language for
  the values that are not finite. The remainder of two finite doubles is a double, so it
  is not rounded. \<^verbatim>\<open>Math.pow(2, z)\<close> is the power rounded.
\<close>

definition js_add :: "jsnum \<Rightarrow> jsnum \<Rightarrow> jsnum" where
  "js_add a b =
     (case a of
        NaN \<Rightarrow> NaN
      | PosInf \<Rightarrow> (case b of NaN \<Rightarrow> NaN | NegInf \<Rightarrow> NaN | _ \<Rightarrow> PosInf)
      | NegInf \<Rightarrow> (case b of NaN \<Rightarrow> NaN | PosInf \<Rightarrow> NaN | _ \<Rightarrow> NegInf)
      | Finite x \<Rightarrow> (case b of Finite y \<Rightarrow> fl (x + y) | other \<Rightarrow> other))"

definition js_sign_inf :: "bool \<Rightarrow> jsnum" where
  "js_sign_inf positive = (if positive then PosInf else NegInf)"

definition js_mul :: "jsnum \<Rightarrow> jsnum \<Rightarrow> jsnum" where
  "js_mul a b =
     (case a of
        NaN \<Rightarrow> NaN
      | PosInf \<Rightarrow>
          (case b of NaN \<Rightarrow> NaN | PosInf \<Rightarrow> PosInf | NegInf \<Rightarrow> NegInf
           | Finite y \<Rightarrow> (if y = 0 then NaN else js_sign_inf (0 < y)))
      | NegInf \<Rightarrow>
          (case b of NaN \<Rightarrow> NaN | PosInf \<Rightarrow> NegInf | NegInf \<Rightarrow> PosInf
           | Finite y \<Rightarrow> (if y = 0 then NaN else js_sign_inf (y < 0)))
      | Finite x \<Rightarrow>
          (case b of NaN \<Rightarrow> NaN
           | PosInf \<Rightarrow> (if x = 0 then NaN else js_sign_inf (0 < x))
           | NegInf \<Rightarrow> (if x = 0 then NaN else js_sign_inf (x < 0))
           | Finite y \<Rightarrow> fl (x * y)))"

definition js_mod :: "jsnum \<Rightarrow> jsnum \<Rightarrow> jsnum" where
  "js_mod n d =
     (case n of
        Finite a \<Rightarrow>
          (case d of
             NaN \<Rightarrow> NaN
           | PosInf \<Rightarrow> Finite a
           | NegInf \<Rightarrow> Finite a
           | Finite b \<Rightarrow> (if b = 0 then NaN else Finite (js_rem a b)))
      | _ \<Rightarrow> NaN)"

definition Math_pow2 :: "jsnum \<Rightarrow> jsnum" where
  "Math_pow2 z =
     (case z of Finite v \<Rightarrow> fl (2 powr v) | PosInf \<Rightarrow> PosInf | NegInf \<Rightarrow> Finite 0
      | NaN \<Rightarrow> NaN)"

text \<open>
  Subtraction is addition of the negated operand; \<^verbatim>\<open>Math.round\<close> of a finite double is
  exact.
\<close>

definition js_neg :: "jsnum \<Rightarrow> jsnum" where
  "js_neg a =
     (case a of Finite x \<Rightarrow> Finite (- x) | PosInf \<Rightarrow> NegInf | NegInf \<Rightarrow> PosInf
      | NaN \<Rightarrow> NaN)"

definition js_sub :: "jsnum \<Rightarrow> jsnum \<Rightarrow> jsnum" where
  "js_sub a b = js_add a (js_neg b)"

definition Math_round_num :: "jsnum \<Rightarrow> jsnum" where
  "Math_round_num a = (case a of Finite x \<Rightarrow> Finite (Math_round x) | other \<Rightarrow> other)"


text \<open>
  Number to string, as a template literal or \<^verbatim>\<open>String.prototype.replace\<close> applies it to
  a number argument. For an integral number below \<open>10\<^sup>2\<^sup>1\<close> in magnitude the result is
  its decimal numeral, with a leading minus sign when negative. \<open>Number_toString\<close> is
  the string of the language on these arguments only: a number with a fraction
  (\<^verbatim>\<open>'1.5'\<close>) or from \<open>10\<^sup>2\<^sup>1\<close> on (\<^verbatim>\<open>'1e+21'\<close>) is printed otherwise by the
  language, and no statement below is about such an argument.
\<close>

fun digits :: "nat \<Rightarrow> string" where
  "digits n = (if n < 10 then [''0123456789'' ! n]
               else digits (n div 10) @ [''0123456789'' ! (n mod 10)])"

declare digits.simps [simp del]

definition dec :: "int \<Rightarrow> string" where
  "dec i = (if i < 0 then CHR ''-'' # digits (nat (- i)) else digits (nat i))"

definition Number_toString :: "real \<Rightarrow> string" where
  "Number_toString v = dec \<lfloor>v\<rfloor>"

definition jsnum_toString :: "jsnum \<Rightarrow> string" where
  "jsnum_toString v =
     (case v of Finite r \<Rightarrow> Number_toString r | PosInf \<Rightarrow> ''Infinity''
      | NegInf \<Rightarrow> ''-Infinity'' | NaN \<Rightarrow> ''NaN'')"

subsection \<open>Evented: the event system\<close>

text \<open>
  A listener is the pair \<^verbatim>\<open>{ fn, ctx }\<close>. Functions and context objects are compared by
  reference, so each is modelled by an identity (a number). \<^verbatim>\<open>this._events\<close> is
  \<open>None\<close> until the first \<^verbatim>\<open>on\<close>; afterwards it is an object whose own keys keep
  their insertion order, modelled as an association list. This is the behaviour of the
  object for type names that are neither the name of a property of \<^verbatim>\<open>Object.prototype\<close>
  (for \<^verbatim>\<open>'constructor'\<close> or \<^verbatim>\<open>'toString'\<close> the lookup \<^verbatim>\<open>this._events[type]\<close> finds the
  inherited function, and \<^verbatim>\<open>on\<close> raises a TypeError at \<^verbatim>\<open>push\<close>) nor canonical array
  indices (\<^verbatim>\<open>Object.keys\<close> lists those first, in numeric order); such type names are
  outside the model.
\<close>

record listener =
  l_fn :: nat
  l_ctx :: "nat option"

type_synonym evented = "(string \<times> listener list) list option"

text \<open>\<^verbatim>\<open>types.split(' ')\<close>: the pieces between single spaces, empty pieces included.\<close>

fun split_on :: "char \<Rightarrow> string \<Rightarrow> string list" where
  "split_on d [] = [[]]"
| "split_on d (c # s) =
     (if c = d then [] # split_on d s
      else (case split_on d s of [] \<Rightarrow> [[c]] | w # ws \<Rightarrow> (c # w) # ws))"

definition on_type :: "listener \<Rightarrow> string \<Rightarrow> (string \<times> listener list) list
    \<Rightarrow> (string \<times> listener list) list" where
  "on_type l type m =
     AList.update type ((case map_of m type of None \<Rightarrow> [] | Some ls \<Rightarrow> ls) @ [l]) m"

definition Evented_on :: "string \<Rightarrow> nat \<Rightarrow> nat option \<Rightarrow> evented \<Rightarrow> evented" where
  "Evented_on types f c ev =
     Some (fold (on_type \<lparr>l_fn = f, l_ctx = c\<rparr>) (split_on CHR '' '' types)
             (case ev of None \<Rightarrow> [] | Some m \<Rightarrow> m))"

text \<open>
  The first argument of \<^verbatim>\<open>off\<close> as a JavaScript value: absent, a string, or an array of
  strings. The loop runs over \<^verbatim>\<open>(types || Object.keys(this._events)).flat()\<close>:
  \<^item> \<^verbatim>\<open>undefined\<close> and the empty string are falsy, so the keys of \<^verbatim>\<open>_events\<close> are taken;
  \<^item> an array is truthy, and \<^verbatim>\<open>flat()\<close> of an array of strings is that array;
  \<^item> a non-empty string is truthy, and strings have no \<^verbatim>\<open>flat\<close> property: the call
    \<^verbatim>\<open>'moveend'.flat()\<close> applies \<^verbatim>\<open>undefined\<close> and raises a TypeError.
\<close>

datatype types_arg = TUndefined | TString string | TArray "string list"

definition off_types :: "types_arg \<Rightarrow> (string \<times> listener list) list \<Rightarrow> js_error + string list" where
  "off_types types m =
     (case types of
        TUndefined \<Rightarrow> Inr (map fst m)
      | TString s \<Rightarrow> (if s = [] then Inr (map fst m) else Inl TypeError)
      | TArray ts \<Rightarrow> Inr ts)"

definition off_type :: "nat option \<Rightarrow> string \<Rightarrow> (string \<times> listener list) list
    \<Rightarrow> (string \<times> listener list) list" where
  "off_type fn type m =
     (case fn of
        Some f \<Rightarrow>
          AList.update type
            (case map_of m type of None \<Rightarrow> [] | Some ls \<Rightarrow> filter (\<lambda>l. l_fn l \<noteq> f) ls) m
      | None \<Rightarrow> AList.delete type m)"

definition Evented_off :: "types_arg \<Rightarrow> nat option \<Rightarrow> evented \<Rightarrow> js_error + evented" where
  "Evented_off types fn ev =
     (case ev of
        None \<Rightarrow> Inr None
      | Some m \<Rightarrow>
          (case off_types types m of
             Inl e \<Rightarrow> Inl e
           | Inr ts \<Rightarrow> Inr (Some (fold (off_type fn) ts m))))"

text \<open>
  \<^verbatim>\<open>fire(type)\<close> calls the listeners registered for the type, in registration order. The
  listeners' bodies are the callers' code; the model returns the list of listeners called.
\<close>

definition Evented_fire :: "string \<Rightarrow> evented \<Rightarrow> listener list" where
  "Evented_fire type ev =
     (case ev of
        None \<Rightarrow> []
      | Some m \<Rightarrow> (case map_of m type of None \<Rightarrow> [] | Some ls \<Rightarrow> ls))"

subsection \<open>Core types: Point, LatLng, Bounds\<close>

record point =
  px :: real
  py :: real

definition Point :: "real \<Rightarrow> real \<Rightarrow> point" where
  "Point a b = \<lparr>px = a, py = b\<rparr>"

definition Point_add :: "point \<Rightarrow> point \<Rightarrow> point" where
  "Point_add t p = Point (px t + px p) (py t + py p)"

definition Point_subtract :: "point \<Rightarrow> point \<Rightarrow> point" where
  "Point_subtract t p = Point (px t - px p) (py t - py p)"

definition Point_multiplyBy :: "point \<Rightarrow> real \<Rightarrow> point" where
  "Point_multiplyBy t k = Point (px t * k) (py t * k)"

definition Point_divideBy :: "point \<Rightarrow> real \<Rightarrow> point" where
  "Point_divideBy t k = Point (px t / k) (py t / k)"

definition Point_distanceTo :: "point \<Rightarrow> point \<Rightarrow> real" where
  "Point_distanceTo t p =
     (let dx = px p - px t; dy = py p - py t in sqrt (dx * dx + dy * dy))"

definition Point_clone :: "point \<Rightarrow> point" where
  "Point_clone t = Point (px t) (py t)"

definition Point_equals :: "point \<Rightarrow> point \<Rightarrow> bool" where
  "Point_equals t p = (px t = px p \<and> py t = py p)"

definition Point_round :: "point \<Rightarrow> point" where
  "Point_round t = Point (Math_round (px t)) (Math_round (py t))"

text \<open>
  A method call \<^verbatim>\<open>p.name()\<close> without arguments on a \<open>Point\<close>, for a name whose value
  is either one of the class's methods that return a \<open>Point\<close> or no property of the
  object at all. The class body (\<^verbatim>\<open>constructor\<close>, \<^verbatim>\<open>add\<close>, \<^verbatim>\<open>subtract\<close>, \<^verbatim>\<open>multiplyBy\<close>,
  \<^verbatim>\<open>divideBy\<close>, \<^verbatim>\<open>distanceTo\<close>, \<^verbatim>\<open>clone\<close>, \<^verbatim>\<open>equals\<close>, \<^verbatim>\<open>round\<close>) is the whole of its
  prototype and nothing in the module extends it; for any other name the property lookup
  gives \<^verbatim>\<open>undefined\<close> and calling it raises a TypeError.
\<close>

definition Point_call :: "string \<Rightarrow> point \<Rightarrow> js_error + point" where
  "Point_call name p =
     (if name = ''clone'' then Inr (Point_clone p)
      else if name = ''round'' then Inr (Point_round p)
      else Inl TypeError)"

record 'n latlng =
  lat :: 'n
  lng :: 'n

text \<open>
  The constructor of \<open>LatLng\<close>, on Number arguments (for which the unary plus of
  \<^verbatim>\<open>this.lat = +lat\<close> is the identity).
\<close>

definition LatLng_new :: "jsnum \<Rightarrow> jsnum \<Rightarrow> js_error + jsnum latlng" where
  "LatLng_new a b =
     (if isNaN a \<or> isNaN b then Inl InvalidLatLng else Inr \<lparr>lat = a, lng = b\<rparr>)"

definition LatLng_equals :: "real latlng \<Rightarrow> real latlng \<Rightarrow> bool" where
  "LatLng_equals t other =
     (\<bar>lat t - lat other\<bar> < 1 / 10 ^ 9 \<and> \<bar>lng t - lng other\<bar> < 1 / 10 ^ 9)"

text \<open>A \<open>Bounds\<close> has no \<^verbatim>\<open>min\<close> and \<^verbatim>\<open>max\<close> until a point is merged in: \<open>None\<close>.\<close>

record bounds =
  bmin :: point
  bmax :: point

definition Bounds_extend :: "point \<Rightarrow> bounds option \<Rightarrow> bounds option" where
  "Bounds_extend p b =
     (case b of
        None \<Rightarrow> Some \<lparr>bmin = Point_clone p, bmax = Point_clone p\<rparr>
      | Some r \<Rightarrow>
          Some \<lparr>bmin = Point (min (px (bmin r)) (px p)) (min (py (bmin r)) (py p)),
                bmax = Point (max (px (bmax r)) (px p)) (max (py (bmax r)) (py p))\<rparr>)"

definition Bounds_new :: "point \<Rightarrow> point \<Rightarrow> bounds option" where
  "Bounds_new a b = Bounds_extend b (Bounds_extend a None)"

definition Bounds_contains :: "bounds \<Rightarrow> point \<Rightarrow> bool" where
  "Bounds_contains r p =
     (px (bmin r) \<le> px p \<and> px p \<le> px (bmax r) \<and> py (bmin r) \<le> py p \<and> py p \<le> py (bmax r))"

subsection \<open>Projection (Web Mercator)\<close>

definition earthRadius :: real where
  "earthRadius = 6378137"

definition MAX_LATITUDE :: real where
  "MAX_LATITUDE = 850511287798 / 10 ^ 10"

definition project :: "real latlng \<Rightarrow> point" where
  "project latlng =
     (let d = pi / 180;
          la = max (min MAX_LATITUDE (lat latlng)) (- MAX_LATITUDE);
          sn = sin (la * d)
      in Point (earthRadius * lng latlng * d)
               (earthRadius * ln ((1 + sn) / (1 - sn)) / 2))"

text \<open>
  \<^verbatim>\<open>unproject\<close> builds its result with \<^verbatim>\<open>new LatLng\<close>; on real arguments the
  constructor's \<open>NaN\<close> test cannot fire.
\<close>

definition unproject :: "point \<Rightarrow> real latlng" where
  "unproject p =
     (let d = 180 / pi
      in \<lparr>lat = (2 * arctan (exp (py p / earthRadius)) - pi / 2) * d,
          lng = px p * d / earthRadius\<rparr>)"

definition CRS_scale :: "real \<Rightarrow> real" where
  "CRS_scale zoom = 256 * 2 powr zoom"

definition CRS_zoom :: "real \<Rightarrow> real" where
  "CRS_zoom scale = ln (scale / 256) / ln 2"

subsection \<open>The map: view state, pane and pan animation\<close>

text \<open>
  The state of a \<open>Map\<close> object together with the parts of its environment that its
  methods read and write:
  \<^item> \<open>center\<close>, \<open>zoom\<close>, \<open>pixelOrigin\<close>: the fields \<^verbatim>\<open>_center\<close>, \<^verbatim>\<open>_zoom\<close>,
    \<^verbatim>\<open>_pixelOrigin\<close>;
  \<^item> \<open>clientSize\<close>: the container's \<^verbatim>\<open>clientWidth\<close> and \<^verbatim>\<open>clientHeight\<close>, which
    \<^verbatim>\<open>getSize()\<close> reads and no method of the map writes;
  \<^item> \<open>mapPane_pos\<close>: the \<^verbatim>\<open>_pos\<close> property of the pane element, which
    \<^verbatim>\<open>DomUtil.setPosition\<close> writes together with the element's \<^verbatim>\<open>left\<close> and \<^verbatim>\<open>top\<close>
    (\<open>None\<close> until it is first set);
  \<^item> \<open>panAnim\<close>: the \<open>PosAnimation\<close> object \<^verbatim>\<open>_panAnim\<close>, created by the first animated pan;
  \<^item> \<open>frames\<close>, \<open>next_frame\<close>: the host's pending animation-frame callbacks, by handle,
    and the next handle \<^verbatim>\<open>requestAnimationFrame\<close> will return (handles are positive);
  \<^item> \<open>events\<close>: the listeners registered on the map (\<^verbatim>\<open>_events\<close>);
  \<^item> \<open>fired\<close>: the trace of the map's \<^verbatim>\<open>fire\<close> calls, each with the listeners it called.

  The layers of the map are its collaborators: \<^verbatim>\<open>_updateLayers\<close> calls each layer's
  \<^verbatim>\<open>update\<close> hook, which repositions that layer's own element and assigns no field of
  the map, so the hook is the identity on this state. The hooks are taken to return: one
  that throws (a popup put on the map without a position reads \<^verbatim>\<open>lat\<close> of
  \<^verbatim>\<open>undefined\<close>) would leave \<^verbatim>\<open>setView\<close> after the fields and the pane are set and
  before \<^verbatim>\<open>moveend\<close> is fired. Likewise the listeners called by \<^verbatim>\<open>fire\<close> are the
  callers' code and are taken to return without calling back into the map. The time is
  read with \<^verbatim>\<open>Date.now()\<close>; each reading is a parameter of the function that makes it.
\<close>

record pos_animation =
  a_startPos :: point
  a_offset :: point
  a_startTime :: real
  a_duration :: real
  a_animId :: "nat option"
  a_fired :: "string list"

record map_state =
  center :: "real latlng"
  zoom :: real
  pixelOrigin :: point
  clientSize :: point
  mapPane_pos :: "point option"
  panAnim :: "pos_animation option"
  frames :: "nat list"
  next_frame :: nat
  events :: evented
  fired :: "(string \<times> listener list) list"

record pan_options =
  animate :: "bool option"
  duration :: "real option"

definition Map_fire :: "string \<Rightarrow> map_state \<Rightarrow> map_state" where
  "Map_fire type m = m\<lparr>fired := fired m @ [(type, Evented_fire type (events m))]\<rparr>"

definition Map_project :: "real latlng \<Rightarrow> real \<Rightarrow> point" where
  "Map_project latlng z = Point_multiplyBy (project latlng) (CRS_scale z / earthRadius)"

definition Map_unproject :: "point \<Rightarrow> real \<Rightarrow> real latlng" where
  "Map_unproject p z = unproject (Point_divideBy p (CRS_scale z / earthRadius))"

definition latLngToContainerPoint :: "map_state \<Rightarrow> real latlng \<Rightarrow> point" where
  "latLngToContainerPoint m latlng =
     (let p = Point_subtract (Map_project latlng (zoom m)) (pixelOrigin m)
      in Point_round p)"

definition containerPointToLatLng :: "map_state \<Rightarrow> point \<Rightarrow> real latlng" where
  "containerPointToLatLng m p = Map_unproject (Point_add p (pixelOrigin m)) (zoom m)"

definition getZoom :: "map_state \<Rightarrow> real" where
  "getZoom m = zoom m"

definition getCenter :: "map_state \<Rightarrow> real latlng" where
  "getCenter m = center m"

definition getSize :: "map_state \<Rightarrow> point" where
  "getSize m = Point (px (clientSize m)) (py (clientSize m))"

definition getPixelBounds :: "map_state \<Rightarrow> bounds option" where
  "getPixelBounds m =
     (let sz = getSize m; nw = pixelOrigin m in Bounds_new nw (Point_add nw sz))"

definition getZoomScale :: "real \<Rightarrow> real \<Rightarrow> real" where
  "getZoomScale toZoom fromZoom = CRS_scale toZoom / CRS_scale fromZoom"

definition getNewPixelOrigin :: "map_state \<Rightarrow> real latlng \<Rightarrow> real \<Rightarrow> point" where
  "getNewPixelOrigin m c z =
     (let viewHalf = Point_divideBy (getSize m) 2
      in Point_subtract (Map_project c z) viewHalf)"

definition getMapPanePos :: "map_state \<Rightarrow> point" where
  "getMapPanePos m = (case mapPane_pos m of None \<Rightarrow> Point 0 0 | Some p \<Rightarrow> p)"

definition updateLayers :: "map_state \<Rightarrow> map_state" where
  "updateLayers m = m"

definition resetView :: "map_state \<Rightarrow> map_state" where
  "resetView m = Map_fire ''moveend'' (updateLayers (m\<lparr>mapPane_pos := Some (Point 0 0)\<rparr>))"

text \<open>
  \<^verbatim>\<open>setView\<close> on a \<open>LatLng\<close> object (the \<^verbatim>\<open>instanceof\<close> branch). An array of two
  finite numbers is turned into the same object by the constructor first.
\<close>

definition setView :: "real latlng \<Rightarrow> real \<Rightarrow> map_state \<Rightarrow> map_state" where
  "setView latlng z m =
     (let m1 = m\<lparr>center := latlng\<rparr>;
          m2 = m1\<lparr>zoom := z\<rparr>;
          m3 = m2\<lparr>pixelOrigin :=
                  Point_subtract (Map_project (center m2) (zoom m2))
                                 (Point_divideBy (getSize m2) 2)\<rparr>
      in resetView m3)"

text \<open>
  The same two computations along one axis in the arithmetic of doubles, where every
  subtraction is rounded. \<open>P\<close> is the coordinate that \<^verbatim>\<open>project\<close> returned (its value
  depends on the host's \<^verbatim>\<open>Math.sin\<close> and \<^verbatim>\<open>Math.log\<close>, so it is a parameter) and \<open>sz\<close>
  the extent of the viewport along the axis: the coordinate of the pixel origin that
  \<^verbatim>\<open>setView\<close> stores, \<^verbatim>\<open>project(center).subtract(getSize().divideBy(2))\<close>, and the
  coordinate that \<^verbatim>\<open>latLngToContainerPoint\<close> returns,
  \<^verbatim>\<open>project(latlng).subtract(_pixelOrigin).round()\<close>.
\<close>

definition pixelOrigin_dbl :: "real \<Rightarrow> real \<Rightarrow> jsnum" where
  "pixelOrigin_dbl P sz = js_sub (Finite P) (fl (sz / 2))"

definition latLngToContainerPoint_dbl :: "real \<Rightarrow> jsnum \<Rightarrow> jsnum" where
  "latLngToContainerPoint_dbl P origin = Math_round_num (js_sub (Finite P) origin)"

definition setZoom :: "real \<Rightarrow> map_state \<Rightarrow> map_state" where
  "setZoom z m = setView (center m) z m"

text \<open>\<^verbatim>\<open>zoomIn(delta = 1)\<close>: an absent argument is the default.\<close>

definition zoomIn :: "real option \<Rightarrow> map_state \<Rightarrow> map_state" where
  "zoomIn delta m = setZoom (zoom m + (case delta of None \<Rightarrow> 1 | Some d \<Rightarrow> d)) m"

definition zoomOut :: "real option \<Rightarrow> map_state \<Rightarrow> map_state" where
  "zoomOut delta m = setZoom (zoom m - (case delta of None \<Rightarrow> 1 | Some d \<Rightarrow> d)) m"

text \<open>
  \<open>PosAnimation\<close>. Its only user is \<^verbatim>\<open>panBy\<close>, which passes the map pane as the
  element, so the methods act on the pane position of the map state. \<^verbatim>\<open>stop\<close> cancels
  the frame whose handle is stored in \<^verbatim>\<open>_animId\<close>; \<^verbatim>\<open>_animate\<close> is one step of the
  animation at the time \<open>now\<close>. No listener is registered on the animation object in
  the module; \<open>a_fired\<close> records its \<^verbatim>\<open>fire('end')\<close>.
\<close>

definition PosAnimation_stop :: "map_state \<Rightarrow> map_state" where
  "PosAnimation_stop m =
     (case panAnim m of
        None \<Rightarrow> m
      | Some a \<Rightarrow>
          (case a_animId a of
             None \<Rightarrow> m
           | Some h \<Rightarrow> m\<lparr>frames := removeAll h (frames m),
                          panAnim := Some (a\<lparr>a_animId := None\<rparr>)\<rparr>))"

definition PosAnimation_animate :: "real \<Rightarrow> map_state \<Rightarrow> map_state" where
  "PosAnimation_animate now m =
     (case panAnim m of
        None \<Rightarrow> m
      | Some a \<Rightarrow>
          (let elapsed = now - a_startTime a in
           if elapsed < a_duration a then
             (let t = elapsed / a_duration a;
                  ease = 1 - (1 - t) ^ 2;
                  pos = Point_add (a_startPos a) (Point_multiplyBy (a_offset a) ease)
              in m\<lparr>mapPane_pos := Some pos,
                    panAnim := Some (a\<lparr>a_animId := Some (next_frame m)\<rparr>),
                    frames := frames m @ [next_frame m],
                    next_frame := Suc (next_frame m)\<rparr>)
           else
             m\<lparr>mapPane_pos := Some (Point_add (a_startPos a) (a_offset a)),
               panAnim := Some (a\<lparr>a_fired := a_fired a @ [''end'']\<rparr>)\<rparr>))"

text \<open>
  \<^verbatim>\<open>run(el, newPos, duration = 0.25)\<close>; \<open>now0\<close> is the reading of the clock stored as
  \<^verbatim>\<open>_startTime\<close>, \<open>now1\<close> the reading made by the first \<^verbatim>\<open>_animate\<close>. \<^verbatim>\<open>panBy\<close>
  creates the animation object when the map has none; a new object has no handle and has
  fired nothing, and \<^verbatim>\<open>run\<close> assigns all its other fields.
\<close>

definition PosAnimation_run :: "point \<Rightarrow> real option \<Rightarrow> real \<Rightarrow> real \<Rightarrow> map_state \<Rightarrow> map_state" where
  "PosAnimation_run newPos dur now0 now1 m =
     (let m1 = PosAnimation_stop m;
          old = (case panAnim m1 of
                   None \<Rightarrow> (None, [])
                 | Some a \<Rightarrow> (a_animId a, a_fired a));
          startPos = getMapPanePos m1;
          a = \<lparr>a_startPos = startPos,
               a_offset = Point_subtract newPos startPos,
               a_startTime = now0,
               a_duration = (case dur of None \<Rightarrow> 1 / 4 | Some d \<Rightarrow> d) * 1000,
               a_animId = fst old,
               a_fired = snd old\<rparr>
      in PosAnimation_animate now1 (m1\<lparr>panAnim := Some a\<rparr>))"

text \<open>
  \<^verbatim>\<open>panBy(offset, options = {})\<close>. The offset is read as \<^verbatim>\<open>offset[0]\<close>, \<^verbatim>\<open>offset[1]\<close>:
  it is a two-element array, here the two numbers \<open>ox\<close> and \<open>oy\<close>. The pan is animated
  unless \<^verbatim>\<open>options.animate\<close> is the value \<^verbatim>\<open>false\<close>.
\<close>

definition panBy :: "real \<Rightarrow> real \<Rightarrow> pan_options \<Rightarrow> real \<Rightarrow> real \<Rightarrow> map_state \<Rightarrow> map_state" where
  "panBy ox oy options now0 now1 m =
     (let newPos = Point_subtract (getMapPanePos m) (Point ox oy);
          m1 = (if animate options \<noteq> Some False
                then PosAnimation_run newPos (duration options) now0 now1 m
                else m\<lparr>mapPane_pos := Some newPos\<rparr>)
      in Map_fire ''moveend'' m1)"

definition panTo :: "real latlng \<Rightarrow> pan_options \<Rightarrow> real \<Rightarrow> real \<Rightarrow> map_state \<Rightarrow> map_state" where
  "panTo latlng options now0 now1 m =
     (let from = latLngToContainerPoint m (center m);
          to = latLngToContainerPoint m latlng;
          offset = Point_subtract to from
      in panBy (px offset) (py offset) options now0 now1 m)"

text \<open>A pending animation frame with handle \<open>h\<close> runs at time \<open>now\<close>.\<close>

definition run_frame :: "nat \<Rightarrow> real \<Rightarrow> map_state \<Rightarrow> map_state" where
  "run_frame h now m =
     (if h \<in> set (frames m)
      then PosAnimation_animate now (m\<lparr>frames := removeAll h (frames m)\<rparr>)
      else m)"

text \<open>
  The frame that the animation has armed (the handle in \<^verbatim>\<open>_animId\<close>) runs at time
  \<open>now\<close>; a handle that is no longer pending does nothing.
\<close>

definition run_armed :: "real \<Rightarrow> map_state \<Rightarrow> map_state" where
  "run_armed now m =
     (case panAnim m of
        None \<Rightarrow> m
      | Some a \<Rightarrow> (case a_animId a of None \<Rightarrow> m | Some h \<Rightarrow> run_frame h now m))"

text \<open>
  The constructor: layout and controls, then
  \<^verbatim>\<open>setView(options.center || [0, 0], options.zoom !== undefined ? options.zoom : 1)\<close>.
  The fields \<^verbatim>\<open>_center\<close>, \<^verbatim>\<open>_zoom\<close> and \<^verbatim>\<open>_pixelOrigin\<close> do not exist before that
  call and nothing reads them before it assigns them; the record passed to \<open>setView\<close>
  holds the values about to be assigned in their place.
\<close>

definition Map_new :: "point \<Rightarrow> real latlng option \<Rightarrow> real option \<Rightarrow> map_state" where
  "Map_new sz c z =
     (let c0 = (case c of None \<Rightarrow> \<lparr>lat = 0, lng = 0\<rparr> | Some l \<Rightarrow> l);
          z0 = (case z of None \<Rightarrow> 1 | Some v \<Rightarrow> v)
      in setView c0 z0
           \<lparr>center = c0, zoom = z0, pixelOrigin = Point 0 0, clientSize = sz,
            mapPane_pos = None, panAnim = None, frames = [], next_frame = 1,
            events = None, fired = []\<rparr>)"

text \<open>The operations on a map, and a run of them.\<close>

datatype map_op =
    SetView "real latlng" real
  | SetZoom real
  | ZoomIn "real option"
  | ZoomOut "real option"
  | PanBy real real pan_options real real
  | PanTo "real latlng" pan_options real real
  | Frame nat real

fun apply_op :: "map_op \<Rightarrow> map_state \<Rightarrow> map_state" where
  "apply_op (SetView c z) m = setView c z m"
| "apply_op (SetZoom z) m = setZoom z m"
| "apply_op (ZoomIn d) m = zoomIn d m"
| "apply_op (ZoomOut d) m = zoomOut d m"
| "apply_op (PanBy ox oy options now0 now1) m = panBy ox oy options now0 now1 m"
| "apply_op (PanTo c options now0 now1) m = panTo c options now0 now1 m"
| "apply_op (Frame h now) m = run_frame h now m"

definition run_ops :: "map_op list \<Rightarrow> map_state \<Rightarrow> map_state" where
  "run_ops ops m = fold apply_op ops m"

text \<open>The invariant of the view state.\<close>

definition view_inv :: "map_state \<Rightarrow> bool" where
  "view_inv m =
     (pixelOrigin m =
        Point_subtract (Map_project (center m) (zoom m)) (Point_divideBy (clientSize m) 2))"

subsection \<open>The tile layer\<close>

text \<open>
  \<^verbatim>\<open>String.prototype.replace\<close> with a string pattern replaces the first occurrence of the
  pattern and nothing else. (The replacement is a number here, so none of the \<^verbatim>\<open>$\<close>
  patterns of a replacement string occurs in it.)
\<close>

fun replace_first :: "string \<Rightarrow> string \<Rightarrow> string \<Rightarrow> string" where
  "replace_first pat rep [] = (if pat = [] then rep else [])"
| "replace_first pat rep (c # s) =
     (if prefix pat (c # s) then rep @ drop (length pat) (c # s)
      else c # replace_first pat rep s)"

record tile_coords =
  cx :: real
  cy :: real
  cz :: real

text \<open>
  A tile image element: its \<^verbatim>\<open>src\<close>, its \<^verbatim>\<open>left\<close> and \<^verbatim>\<open>top\<close> in pixels, and the
  \<^verbatim>\<open>loading\<close> flag. The key of a tile is the template string
  \<^verbatim>\<open>`${wx}:${y}:${zoom}`\<close>; no number's string contains a colon, so the triple of
  numbers stands for the string. The wrapped \<open>x\<close> is a Number that need not be finite.
\<close>

record tile =
  t_src :: string
  t_left :: jsnum
  t_top :: jsnum
  t_loading :: bool

type_synonym tile_key = "jsnum \<times> real \<times> real"

text \<open>
  The layer: the URL template, \<^verbatim>\<open>_options.tileSize\<close> (256 unless the options give one),
  whether \<^verbatim>\<open>_map\<close> is set (\<^verbatim>\<open>onAdd\<close> sets it, \<^verbatim>\<open>onRemove\<close> deletes it), the resident
  tiles \<^verbatim>\<open>_tiles\<close> in insertion order, and the transform of the tile container (its
  offset and scale).
\<close>

record tile_layer =
  tl_url :: string
  tl_tileSize :: real
  tl_attached :: bool
  tl_tiles :: "(tile_key \<times> tile) list"
  tl_transform :: "(point \<times> real) option"

definition TileLayer_new :: "string \<Rightarrow> real option \<Rightarrow> tile_layer" where
  "TileLayer_new urlTemplate ts =
     \<lparr>tl_url = urlTemplate,
      tl_tileSize = (case ts of None \<Rightarrow> 256 | Some v \<Rightarrow> v),
      tl_attached = False, tl_tiles = [], tl_transform = None\<rparr>"

text \<open>
  \<^verbatim>\<open>_getTileUrl\<close>: the three chained \<^verbatim>\<open>replace\<close> calls, on the strings of the three
  coordinates.
\<close>

definition replace_xyz :: "string \<Rightarrow> string \<Rightarrow> string \<Rightarrow> string \<Rightarrow> string" where
  "replace_xyz urlTemplate sx sy sz =
     replace_first ''{z}'' sz (replace_first ''{y}'' sy (replace_first ''{x}'' sx urlTemplate))"

definition getTileUrl :: "string \<Rightarrow> tile_coords \<Rightarrow> string" where
  "getTileUrl urlTemplate coords =
     replace_xyz urlTemplate (Number_toString (cx coords)) (Number_toString (cy coords))
       (Number_toString (cz coords))"

text \<open>
  \<^verbatim>\<open>_wrapX\<close>, in the arithmetic of the language: \<^verbatim>\<open>Math.pow(2, zoom)\<close> overflows to
  \<open>Infinity\<close> from zoom 1024 on, the sum is rounded, and a remainder with an infinite
  dividend is \<open>NaN\<close>.
\<close>

definition wrapX :: "jsnum \<Rightarrow> jsnum \<Rightarrow> jsnum" where
  "wrapX x z =
     (let worldWidth = Math_pow2 z
      in js_mod (js_add (js_mod x worldWidth) worldWidth) worldWidth)"

text \<open>The values of the loop variable of \<^verbatim>\<open>for (let x = lo; x <= hi; x++)\<close>.\<close>

definition range_incl :: "real \<Rightarrow> real \<Rightarrow> real list" where
  "range_incl lo hi = map (\<lambda>i. lo + of_nat i) [0 ..< nat (\<lfloor>hi - lo\<rfloor> + 1)]"

text \<open>
  The required set: \<^verbatim>\<open>tilesToLoad[key] = { x: wx, y, z: zoom }\<close>, the value holding the
  same three numbers as the key.
\<close>

definition tilesToLoad :: "point \<Rightarrow> point \<Rightarrow> real \<Rightarrow> (tile_key \<times> tile_key) list" where
  "tilesToLoad nwTile seTile z =
     fold (\<lambda>x acc.
             fold (\<lambda>y acc'.
                     (let wx = wrapX (Finite x) (Finite z); key = (wx, y, z)
                      in AList.update key (wx, y, z) acc'))
                  (range_incl (py nwTile) (py seTile)) acc)
          (range_incl (px nwTile) (px seTile)) []"

definition remove_old :: "(tile_key \<times> tile_key) list \<Rightarrow> (tile_key \<times> tile) list
    \<Rightarrow> (tile_key \<times> tile) list" where
  "remove_old req ts = filter (\<lambda>kt. map_of req (fst kt) \<noteq> None) ts"

definition new_tile :: "tile_layer \<Rightarrow> tile_key \<Rightarrow> tile" where
  "new_tile l coords =
     (case coords of
        (wx, y, z) \<Rightarrow>
          \<lparr>t_src = replace_xyz (tl_url l) (jsnum_toString wx) (Number_toString y)
                     (Number_toString z),
           t_left = js_mul wx (Finite (tl_tileSize l)),
           t_top = js_mul (Finite y) (Finite (tl_tileSize l)),
           t_loading = True\<rparr>)"

definition add_new :: "tile_layer \<Rightarrow> (tile_key \<times> tile_key) list \<Rightarrow> (tile_key \<times> tile) list
    \<Rightarrow> (tile_key \<times> tile) list" where
  "add_new l req ts =
     fold (\<lambda>kc acc. if map_of acc (fst kc) = None
                     then acc @ [(fst kc, new_tile l (snd kc))] else acc) req ts"

text \<open>
  The body of \<^verbatim>\<open>_update\<close> after the tile index bounds: the required set, the removal of
  the tiles that left it, the creation of the tiles that entered it, and the transform of
  the container.
\<close>

definition update_tiles :: "map_state \<Rightarrow> real \<Rightarrow> point \<Rightarrow> point \<Rightarrow> tile_layer \<Rightarrow> tile_layer" where
  "update_tiles m z nwTile seTile l =
     (let req = tilesToLoad nwTile seTile z;
          ts = add_new l req (remove_old req (tl_tiles l));
          c = getCenter m;
          origin = getNewPixelOrigin m c z;
          offset = Point_multiplyBy origin (- 1);
          scale = getZoomScale z (zoom m)
      in l\<lparr>tl_tiles := ts, tl_transform := Some (offset, scale)\<rparr>)"

text \<open>
  \<^verbatim>\<open>_update\<close>. The tile index bounds are computed by the method calls
  \<^verbatim>\<open>bounds.min.divideBy(tileSize).floor()\<close> and \<^verbatim>\<open>bounds.max.divideBy(tileSize).ceil()\<close>
  on \<open>Point\<close> objects. The map state is the one \<^verbatim>\<open>this._map\<close> refers to at the time of
  the call.
\<close>

definition TileLayer_update :: "map_state \<Rightarrow> tile_layer \<Rightarrow> js_error + tile_layer" where
  "TileLayer_update m l =
     (if \<not> tl_attached l then Inr l
      else
        (let z = Math_round (getZoom m);
             tileSize = tl_tileSize l
         in case getPixelBounds m of
              None \<Rightarrow> Inl TypeError
            | Some b \<Rightarrow>
                (case Point_call ''floor'' (Point_divideBy (bmin b) tileSize) of
                   Inl e \<Rightarrow> Inl e
                 | Inr nwTile \<Rightarrow>
                     (case Point_call ''ceil'' (Point_divideBy (bmax b) tileSize) of
                        Inl e \<Rightarrow> Inl e
                      | Inr seTile \<Rightarrow> Inr (update_tiles m z nwTile seTile l)))))"

text \<open>
  The substitution as one pass, the reading that the chain of \<^verbatim>\<open>replace\<close> calls is
  compared with: going through the template from the left, the first \<^verbatim>\<open>{x}\<close>, the first \<^verbatim>\<open>{y}\<close> and the first \<^verbatim>\<open>{z}\<close>
  met are replaced by the strings \<open>sx\<close>, \<open>sy\<close>, \<open>sz\<close>; once a placeholder has been
  replaced (\<open>dx\<close>, \<open>dy\<close>, \<open>dz\<close>), its later occurrences are copied like any other text.
\<close>

function substitute_first :: "bool \<Rightarrow> bool \<Rightarrow> bool \<Rightarrow> string \<Rightarrow> string \<Rightarrow> string \<Rightarrow> string \<Rightarrow> string" where
  "substitute_first dx dy dz sx sy sz [] = []"
| "substitute_first dx dy dz sx sy sz (c # s) =
     (if \<not> dx \<and> prefix ''{x}'' (c # s) then sx @ substitute_first True dy dz sx sy sz (drop 2 s)
      else if \<not> dy \<and> prefix ''{y}'' (c # s) then sy @ substitute_first dx True dz sx sy sz (drop 2 s)
      else if \<not> dz \<and> prefix ''{z}'' (c # s) then sz @ substitute_first dx dy True sx sy sz (drop 2 s)
      else c # substitute_first dx dy dz sx sy sz s)"
  by pat_completeness auto
termination
  by (relation "measure (\<lambda>(dx, dy, dz, sx, sy, sz, s). length s)") auto

subsection \<open>The scenario of the demo page\<close>

text \<open>
  The demo centres the map on London at zoom 12 with an OpenStreetMap tile layer; the
  viewport of the scenario is 600 by 400 pixels.
\<close>

definition demo_center :: "real latlng" where
  "demo_center = \<lparr>lat = 51505 / 1000, lng = - (9 / 100)\<rparr>"

definition demo_map :: map_state where
  "demo_map = Map_new (Point 600 400) (Some demo_center) (Some 12)"

definition demo_layer :: tile_layer where
  "demo_layer =
     (TileLayer_new ''https://{s}.tile.openstreetmap.org/{z}/{x}/{y}.png'' None)
       \<lparr>tl_attached := True\<rparr>"

subsection \<open>Auxiliary notions for the proofs\<close>

text \<open>
  A replacement string is plain when it is not empty and has neither a brace nor one of
  the placeholder letters; a replacement that is carried out unless it is already done.
\<close>

text \<open>
  An animation from \<open>sp\<close> by \<open>off\<close>, started at \<open>t0\<close> for \<open>dur\<close> milliseconds, with
  its next frame pending.
\<close>

definition armed :: "point \<Rightarrow> point \<Rightarrow> real \<Rightarrow> real \<Rightarrow> map_state \<Rightarrow> bool" where
  "armed sp off t0 dur m =
     (case panAnim m of
        None \<Rightarrow> False
      | Some a \<Rightarrow>
          a_startPos a = sp \<and> a_offset a = off \<and> a_startTime a = t0 \<and> a_duration a = dur
          \<and> (case a_animId a of None \<Rightarrow> False | Some h \<Rightarrow> h \<in> set (frames m)))"

definition plain :: "string \<Rightarrow> bool" where
  "plain r = (r \<noteq> [] \<and> set r \<inter> set ''{}xyz'' = {})"

definition rf_if :: "bool \<Rightarrow> string \<Rightarrow> string \<Rightarrow> string \<Rightarrow> string" where
  "rf_if d pat rep s = (if d then s else replace_first pat rep s)"

section \<open>Properties\<close>

subsection \<open>Rounding to a double\<close>

text \<open>\<open>fl\<close> is exact on powers of two and on integers up to \<open>2\<^sup>5\<^sup>3\<close>.\<close>

lemma round_even_int: "round_even (of_int n) = n"
  by (simp add: round_even_def)

lemma ulp_pos: "0 < ulp r"
  by (simp add: ulp_def)

lemma fl_exact:
  assumes "r / ulp r = of_int k"
  shows "fl r = (if dbl_limit \<le> \<bar>r\<bar> then (if 0 < r then PosInf else NegInf) else Finite r)"
proof (cases "r = 0")
  case True
  then show ?thesis by (simp add: fl_def dbl_limit_def)
next
  case False
  have "of_int (round_even (r / ulp r)) * ulp r = (r / ulp r) * ulp r"
    by (simp only: assms round_even_int)
  also have "\<dots> = r" using ulp_pos[of r] by simp
  finally show ?thesis using False by (simp add: fl_def Let_def)
qed

lemma floor_log2:
  assumes "2 ^ n \<le> r" "r < 2 ^ Suc n"
  shows "\<lfloor>log 2 r\<rfloor> = int n"
proof -
  have r: "0 < r" using assms(1) by (meson less_le_trans zero_less_numeral zero_less_power)
  have a: "of_int (int n) \<le> log 2 r"
    using assms(1) r by (simp add: le_log_iff powr_realpow)
  have "log 2 r < of_nat (Suc n)"
    using assms(2) r by (simp add: log_less_iff powr_realpow del: power_Suc of_nat_Suc)
  then have b: "log 2 r < of_int (int n) + 1" by simp
  show ?thesis using a b by (simp add: floor_eq_iff)
qed

lemma ulp_pow2: "ulp (2 ^ n) = 2 powr (of_int (int n - 52))"
proof -
  have e: "\<lfloor>log 2 \<bar>(2::real) ^ n\<bar>\<rfloor> = int n"
    using floor_log2[of n "2 ^ n"] by simp
  show ?thesis by (simp add: ulp_def e)
qed

lemma pow2_div_ulp: "(2::real) ^ n / ulp (2 ^ n) = of_int (2 ^ 52)"
proof -
  have "(2::real) ^ n / 2 powr (of_int (int n - 52)) =
      2 powr (of_int (int n)) / 2 powr (of_int (int n - 52))"
    by (simp add: powr_realpow)
  also have "\<dots> = 2 powr 52"
    by (simp add: powr_diff[symmetric])
  also have "\<dots> = 2 ^ 52"
    using powr_realpow[of 2 52] by simp
  finally show ?thesis by (simp add: ulp_pow2)
qed

lemma fl_pow2: "fl (2 ^ n) = (if n \<le> 1023 then Finite (2 ^ n) else PosInf)"
proof -
  have "(dbl_limit \<le> \<bar>(2::real) ^ n\<bar>) = (1024 \<le> n)"
  proof -
    have "\<bar>(2::real) ^ n\<bar> = 2 ^ n" by simp
    moreover have "((2::real) ^ 1024 \<le> 2 ^ n) = (1024 \<le> n)"
      by (rule power_increasing_iff) simp
    ultimately show ?thesis unfolding dbl_limit_def by (simp only:)
  qed
  then show ?thesis using fl_exact[OF pow2_div_ulp, of n] by auto
qed


lemma fl_int:
  assumes "\<bar>k\<bar> \<le> 2 ^ 53"
  shows "fl (of_int k) = Finite (of_int k)"
proof (cases "k = 0")
  case True
  then show ?thesis by (simp add: fl_def)
next
  case False
  let ?a = "\<bar>of_int k :: real\<bar>"
  have a1: "1 \<le> ?a" using False by (simp flip: of_int_abs)
  have a2: "?a \<le> 2 ^ 53" using assms by (simp flip: of_int_abs)
  let ?n = "\<lfloor>log 2 ?a\<rfloor>"
  have n0: "0 \<le> ?n" using a1 by (simp add: zero_le_log_cancel_iff)
  have "log 2 ?a \<le> 53" using a1 a2 by (simp add: log_le_iff powr_realpow)
  then have n1: "?n \<le> 53" by (simp add: floor_le_iff)
  have u: "ulp (of_int k) = 2 powr of_int (?n - 52)" using n0 by (simp add: ulp_def max_def)
  have lim: "\<not> dbl_limit \<le> ?a"
  proof -
    have "(2::real) ^ 53 < 2 ^ 1024" by (rule power_strict_increasing) simp_all
    then show ?thesis unfolding dbl_limit_def using a2 by linarith
  qed
  have "\<exists>j. (of_int k :: real) / ulp (of_int k) = of_int j"
  proof (cases "?n \<le> 52")
    case True
    then obtain d where d: "52 - ?n = int d" using nonneg_int_cases[of "52 - ?n"] by auto
    have "1 / ulp (of_int k) = 2 powr (- of_int (?n - 52))"
      unfolding u by (simp only: powr_minus_divide)
    also have "\<dots> = 2 powr of_int (52 - ?n)" by simp
    also have "\<dots> = 2 ^ d" unfolding d by (simp add: powr_realpow)
    finally have i: "1 / ulp (of_int k) = 2 ^ d" .
    have "(of_int k :: real) / ulp (of_int k) = of_int k * (1 / ulp (of_int k))" by simp
    also have "\<dots> = of_int (k * 2 ^ d)" unfolding i by simp
    finally have "(of_int k :: real) / ulp (of_int k) = of_int (k * 2 ^ d)" .
    then show ?thesis by blast
  next
    case False
    then have n: "?n = 53" using n1 by linarith
    then have "53 \<le> log 2 ?a" by (metis of_int_floor_le of_int_numeral)
    then have "2 ^ 53 \<le> ?a" using a1 by (simp add: le_log_iff powr_realpow)
    then have "?a = 2 ^ 53" using a2 by simp
    then have "\<bar>k\<bar> = 2 ^ 53" by (simp flip: of_int_abs)
    then have "even k" by (metis even_abs_add_iff even_add even_numeral even_power zero_less_numeral)
    then obtain j where j: "k = 2 * j" by (elim evenE)
    have "ulp (of_int k) = 2" unfolding u n by simp
    then have "(of_int k :: real) / ulp (of_int k) = of_int j" using j by simp
    then show ?thesis by blast
  qed
  then obtain j where "(of_int k :: real) / ulp (of_int k) = of_int j" by blast
  from fl_exact[OF this] lim show ?thesis by simp
qed


text \<open>The rounding error is at most half the spacing of the doubles.\<close>

lemma round_even_error: "\<bar>of_int (round_even q) - q\<bar> \<le> 1 / 2"
  by (auto simp: round_even_def Let_def; linarith)

lemma fl_error:
  assumes "\<bar>r\<bar> < 2 ^ n" "n \<le> 1023"
  shows "\<exists>v. fl r = Finite v \<and> \<bar>v - r\<bar> \<le> 2 ^ n / 2 ^ 54"
proof (cases "r = 0")
  case True
  then show ?thesis by (simp add: fl_def)
next
  case False
  let ?u = "ulp r"
  let ?v = "of_int (round_even (r / ?u)) * ?u"
  have up: "0 < ?u" by (rule ulp_pos)
  have a0: "0 < \<bar>r\<bar>" using False by simp
  have "log 2 \<bar>r\<bar> < of_nat n" using assms a0 by (simp add: log_less_iff powr_realpow)
  then have "\<lfloor>log 2 \<bar>r\<bar>\<rfloor> < int n" by (simp add: floor_less_iff)
  then have "max \<lfloor>log 2 \<bar>r\<bar>\<rfloor> (- 1022) - 52 \<le> int n - 53" by simp
  then have "?u \<le> 2 powr of_int (int n - 53)" unfolding ulp_def by (intro powr_mono) simp_all
  also have "\<dots> = 2 powr (of_nat n) / 2 powr 53" by (simp add: powr_diff)
  also have "\<dots> = 2 ^ n / 2 ^ 53" using powr_realpow[of 2 n] powr_realpow[of 2 53] by simp
  finally have u1: "?u \<le> 2 ^ n / 2 ^ 53" .
  have "?v - r = (of_int (round_even (r / ?u)) - r / ?u) * ?u"
    using up by (simp add: left_diff_distrib)
  then have "\<bar>?v - r\<bar> = \<bar>of_int (round_even (r / ?u)) - r / ?u\<bar> * \<bar>?u\<bar>"
    by (simp only: abs_mult)
  also have "\<dots> = \<bar>of_int (round_even (r / ?u)) - r / ?u\<bar> * ?u"
    using up by simp
  also have "\<dots> \<le> 1 / 2 * ?u"
    using up round_even_error[of "r / ?u"] by (intro mult_right_mono) simp_all
  also have "\<dots> \<le> 1 / 2 * (2 ^ n / 2 ^ 53)" using u1 by simp
  also have "\<dots> = 2 ^ n / 2 ^ 54" by simp
  finally have err: "\<bar>?v - r\<bar> \<le> 2 ^ n / 2 ^ 54" .
  have "(2::real) ^ n / 2 ^ 54 \<le> 2 ^ n" by (simp add: field_simps)
  then have "\<bar>?v\<bar> < 2 ^ n + 2 ^ n" using err assms(1) by linarith
  also have "\<dots> = (2::real) ^ Suc n" by simp
  also have "\<dots> \<le> 2 ^ 1024" using assms(2) by (intro power_increasing) simp_all
  finally have "\<not> dbl_limit \<le> \<bar>?v\<bar>" by (simp add: dbl_limit_def)
  then have "fl r = Finite ?v" using False by (simp add: fl_def Let_def)
  then show ?thesis using err by blast
qed

subsection \<open>View state\<close>

lemma getSize_eq: "getSize m = clientSize m"
  by (simp add: getSize_def Point_def)

lemma setView_fields:
  "center (setView c z m) = c"
  "zoom (setView c z m) = z"
  "pixelOrigin (setView c z m) =
     Point_subtract (Map_project c z) (Point_divideBy (clientSize m) 2)"
  "clientSize (setView c z m) = clientSize m"
  "mapPane_pos (setView c z m) = Some (Point 0 0)"
  "fired (setView c z m) = fired m @ [(''moveend'', Evented_fire ''moveend'' (events m))]"
  by (simp_all add: setView_def resetView_def updateLayers_def Map_fire_def getSize_eq Let_def)

lemma view_inv_setView: "view_inv (setView c z m)"
  by (simp add: view_inv_def setView_fields)

lemma animate_frame:
  "center (PosAnimation_animate now m) = center m"
  "zoom (PosAnimation_animate now m) = zoom m"
  "pixelOrigin (PosAnimation_animate now m) = pixelOrigin m"
  "clientSize (PosAnimation_animate now m) = clientSize m"
  "fired (PosAnimation_animate now m) = fired m"
  "events (PosAnimation_animate now m) = events m"
  by (simp_all add: PosAnimation_animate_def Let_def split: option.splits)

lemma stop_frame:
  "center (PosAnimation_stop m) = center m"
  "zoom (PosAnimation_stop m) = zoom m"
  "pixelOrigin (PosAnimation_stop m) = pixelOrigin m"
  "clientSize (PosAnimation_stop m) = clientSize m"
  "fired (PosAnimation_stop m) = fired m"
  "events (PosAnimation_stop m) = events m"
  "mapPane_pos (PosAnimation_stop m) = mapPane_pos m"
  by (simp_all add: PosAnimation_stop_def Let_def split: option.splits)

lemma run_anim_frame:
  "center (PosAnimation_run p d n0 n1 m) = center m"
  "zoom (PosAnimation_run p d n0 n1 m) = zoom m"
  "pixelOrigin (PosAnimation_run p d n0 n1 m) = pixelOrigin m"
  "clientSize (PosAnimation_run p d n0 n1 m) = clientSize m"
  "fired (PosAnimation_run p d n0 n1 m) = fired m"
  "events (PosAnimation_run p d n0 n1 m) = events m"
  by (simp_all add: PosAnimation_run_def Let_def animate_frame stop_frame)

lemma panBy_frame:
  "center (panBy ox oy opts n0 n1 m) = center m"
  "zoom (panBy ox oy opts n0 n1 m) = zoom m"
  "pixelOrigin (panBy ox oy opts n0 n1 m) = pixelOrigin m"
  "clientSize (panBy ox oy opts n0 n1 m) = clientSize m"
  "fired (panBy ox oy opts n0 n1 m) =
     fired m @ [(''moveend'', Evented_fire ''moveend'' (events m))]"
  by (simp_all add: panBy_def Let_def Map_fire_def run_anim_frame)

lemma view_inv_apply: "view_inv m \<Longrightarrow> view_inv (apply_op op m)"
proof (cases op)
  case (PanBy ox oy opts n0 n1)
  assume "view_inv m"
  then show ?thesis using PanBy by (simp add: view_inv_def panBy_frame)
next
  case (PanTo c opts n0 n1)
  assume "view_inv m"
  then show ?thesis using PanTo by (simp add: view_inv_def panTo_def Let_def panBy_frame)
next
  case (Frame h now)
  assume "view_inv m"
  then show ?thesis using Frame by (simp add: view_inv_def run_frame_def animate_frame)
qed (simp_all add: view_inv_setView setZoom_def zoomIn_def zoomOut_def)

lemma view_inv_run: "view_inv m \<Longrightarrow> view_inv (run_ops ops m)"
  unfolding run_ops_def by (induction ops arbitrary: m) (simp_all add: view_inv_apply)

lemma view_inv_Map_new: "view_inv (Map_new sz c z)"
  by (simp add: Map_new_def Let_def view_inv_setView)

text \<open>
  C1. After the constructor, and after any \<open>setView\<close> from any state, every run of
  \<open>setView\<close>, \<open>setZoom\<close>, \<open>zoomIn\<close>, \<open>zoomOut\<close>, \<open>panBy\<close> (also \<open>panTo\<close> and
  animation frames) leaves \<open>pixelOrigin = project(center, zoom) - viewportSize / 2\<close>,
  the viewport size being the same throughout. Every \<open>setView\<close> stores the new center
  and zoom, recomputes \<open>pixelOrigin\<close> from them, puts the pane back at \<open>(0, 0)\<close> and
  fires \<open>moveend\<close>.
\<close>

theorem pixelOrigin_invariant:
  "view_inv (run_ops ops (Map_new sz c0 z0))
   \<and> view_inv (run_ops ops (setView c z m))
   \<and> clientSize (run_ops ops m) = clientSize m
   \<and> center (setView c z m) = c
   \<and> zoom (setView c z m) = z
   \<and> pixelOrigin (setView c z m) =
       Point_subtract (Map_project c z) (Point_divideBy (clientSize m) 2)
   \<and> getMapPanePos (setView c z m) = Point 0 0
   \<and> fired (setView c z m) = fired m @ [(''moveend'', Evented_fire ''moveend'' (events m))]"
proof -
  have size_op: "clientSize (apply_op op s) = clientSize s" for op s
    by (cases op)
       (simp_all add: setView_fields setZoom_def zoomIn_def zoomOut_def panBy_frame panTo_def
          Let_def run_frame_def animate_frame)
  have "clientSize (fold apply_op ops s) = clientSize s" for s
    by (induction ops arbitrary: s) (simp_all add: size_op)
  then have "clientSize (run_ops ops m) = clientSize m"
    by (simp add: run_ops_def)
  then show ?thesis
    by (simp add: view_inv_run view_inv_Map_new view_inv_setView setView_fields
        getMapPanePos_def)
qed

text \<open>
  The center in the arithmetic of doubles: for a viewport extent \<open>2n\<close> up to \<open>2\<^sup>2\<^sup>1\<close> and
  a projected coordinate up to \<open>2\<^sup>4\<^sup>0\<close> in magnitude, the two rounded subtractions are off
  by less than half a pixel, and \<^verbatim>\<open>Math.round\<close> gives \<open>n\<close>.
\<close>

lemma center_dbl:
  assumes P: "\<bar>P\<bar> \<le> 2 ^ 40" and n: "n \<le> 2 ^ 20"
  shows "latLngToContainerPoint_dbl P (pixelOrigin_dbl P (2 * of_nat n)) = Finite (of_nat n)"
proof -
  have "real n \<le> real (2 ^ 20)" using n by (simp only: of_nat_le_iff)
  then have nn: "real n \<le> 1048576" by simp
  have P': "\<bar>P\<bar> \<le> 1099511627776" using P by simp
  have "\<bar>int n\<bar> \<le> 2 ^ 53" using n by simp
  then have h: "fl (of_nat n) = Finite (of_nat n)" using fl_int[of "int n"] by simp
  have "\<bar>P - of_nat n\<bar> < 2199023255552" using P' nn by linarith
  then have "\<bar>P - of_nat n\<bar> < 2 ^ 41" by simp
  then obtain o1 where o1: "fl (P - of_nat n) = Finite o1"
      and "\<bar>o1 - (P - of_nat n)\<bar> \<le> 2 ^ 41 / 2 ^ 54"
    using fl_error[of "P - of_nat n" 41] by auto
  then have e1: "\<bar>o1 - (P - of_nat n)\<bar> \<le> 1 / 8192" by simp
  have "\<bar>P - o1\<bar> < 2097152" using e1 nn by linarith
  then have "\<bar>P - o1\<bar> < 2 ^ 21" by simp
  then obtain d where d: "fl (P - o1) = Finite d" and "\<bar>d - (P - o1)\<bar> \<le> 2 ^ 21 / 2 ^ 54"
    using fl_error[of "P - o1" 21] by auto
  then have e2: "\<bar>d - (P - o1)\<bar> \<le> 1 / 8589934592" by simp
  have "\<bar>d - of_nat n\<bar> < 1 / 2" using e1 e2 by linarith
  then have "real n \<le> d + 1 / 2" and "d + 1 / 2 < real n + 1" by linarith+
  then have "\<lfloor>d + 1 / 2\<rfloor> = int n" by (simp add: floor_eq_iff)
  then have "Math_round d = of_nat n" by (simp add: Math_round_def)
  then show ?thesis
    using h o1 d
    by (simp add: latLngToContainerPoint_dbl_def pixelOrigin_dbl_def js_sub_def js_neg_def
        js_add_def Math_round_num_def)
qed

text \<open>
  C2. Each coordinate of \<open>latLngToContainerPoint(latlng)\<close> is the coordinate of
  \<open>project(latlng, zoom) - pixelOrigin\<close> rounded to the nearest integer, a tie upwards:
  \<open>\<lfloor>d + 1/2\<rfloor>\<close>; so the result is the point \<open>(i, j)\<close> exactly when the difference lies
  in \<open>[i - 1/2, i + 1/2) \<times> [j - 1/2, j + 1/2)\<close>. After \<open>setView\<close> on London at zoom 12 with
  a 600 by 400 viewport the center maps to \<open>(300, 200)\<close>; this also holds in the
  arithmetic of doubles, for every value \<open>P\<close> up to \<open>2\<^sup>4\<^sup>0\<close> of the projected coordinate
  (at zoom 12 the world is \<open>2\<^sup>2\<^sup>0\<close> pixels wide) and every even viewport extent \<open>2n\<close>. For
  an odd extent the difference is a tie up to rounding error, and the result can be
  either neighbour.
\<close>

theorem latLngToContainerPoint_center:
  "latLngToContainerPoint m latlng =
     Point_round (Point_subtract (Map_project latlng (zoom m)) (pixelOrigin m))
   \<and> px (latLngToContainerPoint m latlng) =
       of_int \<lfloor>px (Map_project latlng (zoom m)) - px (pixelOrigin m) + 1 / 2\<rfloor>
   \<and> py (latLngToContainerPoint m latlng) =
       of_int \<lfloor>py (Map_project latlng (zoom m)) - py (pixelOrigin m) + 1 / 2\<rfloor>
   \<and> (latLngToContainerPoint m latlng = Point (of_int i) (of_int j)
        \<longleftrightarrow> of_int i - 1 / 2 \<le> px (Map_project latlng (zoom m)) - px (pixelOrigin m)
            \<and> px (Map_project latlng (zoom m)) - px (pixelOrigin m) < of_int i + 1 / 2
            \<and> of_int j - 1 / 2 \<le> py (Map_project latlng (zoom m)) - py (pixelOrigin m)
            \<and> py (Map_project latlng (zoom m)) - py (pixelOrigin m) < of_int j + 1 / 2)
   \<and> latLngToContainerPoint (setView demo_center 12 (m\<lparr>clientSize := Point 600 400\<rparr>))
        demo_center = Point 300 200
   \<and> latLngToContainerPoint demo_map demo_center = Point 300 200
   \<and> (\<bar>P\<bar> \<le> 2 ^ 40 \<and> n \<le> 2 ^ 20
      \<longrightarrow> latLngToContainerPoint_dbl P (pixelOrigin_dbl P (2 * of_nat n)) = Finite (of_nat n))"
proof -
  have r: "Math_round d = of_int k \<longleftrightarrow> of_int k - 1 / 2 \<le> d \<and> d < of_int k + 1 / 2" for d k
    by (simp add: Math_round_def floor_eq_iff) linarith
  have 1: "latLngToContainerPoint m latlng = Point (of_int i) (of_int j)
        \<longleftrightarrow> of_int i - 1 / 2 \<le> px (Map_project latlng (zoom m)) - px (pixelOrigin m)
            \<and> px (Map_project latlng (zoom m)) - px (pixelOrigin m) < of_int i + 1 / 2
            \<and> of_int j - 1 / 2 \<le> py (Map_project latlng (zoom m)) - py (pixelOrigin m)
            \<and> py (Map_project latlng (zoom m)) - py (pixelOrigin m) < of_int j + 1 / 2"
    by (simp add: latLngToContainerPoint_def Point_round_def Point_subtract_def Point_def r)
  have 2: "latLngToContainerPoint (setView demo_center 12 (m\<lparr>clientSize := Point 600 400\<rparr>))
        demo_center = Point 300 200"
    "latLngToContainerPoint demo_map demo_center = Point 300 200"
    by (simp_all add: latLngToContainerPoint_def setView_fields demo_map_def Map_new_def
      Point_subtract_def Point_divideBy_def Point_round_def Math_round_def Point_def)
  have 3: "px (latLngToContainerPoint m latlng) =
       of_int \<lfloor>px (Map_project latlng (zoom m)) - px (pixelOrigin m) + 1 / 2\<rfloor>"
    "py (latLngToContainerPoint m latlng) =
       of_int \<lfloor>py (Map_project latlng (zoom m)) - py (pixelOrigin m) + 1 / 2\<rfloor>"
    by (simp_all add: latLngToContainerPoint_def Point_round_def Point_subtract_def Point_def
        Math_round_def)
  show ?thesis
    using 1 2 3 center_dbl[of P n] by (simp add: latLngToContainerPoint_def)
qed

text \<open>
  The theorem at the coordinates that London has at zoom 12, about \<open>-1647.1\<close> and
  \<open>1103312.4\<close>, on the 600 by 400 viewport.
\<close>

theorem latLngToContainerPoint_center_witness:
  "\<bar>- (16471 / 10) :: real\<bar> \<le> 2 ^ 40 \<and> (300::nat) \<le> 2 ^ 20
   \<and> latLngToContainerPoint_dbl (- (16471 / 10)) (pixelOrigin_dbl (- (16471 / 10)) 600) =
       Finite 300
   \<and> latLngToContainerPoint_dbl (11033124 / 10) (pixelOrigin_dbl (11033124 / 10) 400) =
       Finite 200"
  using latLngToContainerPoint_center[where P = "- (16471 / 10)" and n = 300]
        latLngToContainerPoint_center[where P = "11033124 / 10" and n = 200]
  by simp

subsection \<open>Panning\<close>

lemma Point_add_subtract: "Point_add s (Point_subtract t s) = t"
  by (simp add: Point_add_def Point_subtract_def Point_def)

lemma getMapPanePos_stop: "getMapPanePos (PosAnimation_stop m) = getMapPanePos m"
  by (simp add: getMapPanePos_def stop_frame)

lemma next_frame_stop: "next_frame (PosAnimation_stop m) = next_frame m"
  by (simp add: PosAnimation_stop_def split: option.splits)

lemma run_pane:
  "getMapPanePos (PosAnimation_run p d n0 n1 m) =
    (if n1 - n0 < (case d of None \<Rightarrow> 1 / 4 | Some v \<Rightarrow> v) * 1000
     then Point_add (getMapPanePos m)
            (Point_multiplyBy (Point_subtract p (getMapPanePos m))
               (1 - (1 - (n1 - n0) / ((case d of None \<Rightarrow> 1 / 4 | Some v \<Rightarrow> v) * 1000)) ^ 2))
     else p)"
  by (simp add: PosAnimation_run_def PosAnimation_animate_def Let_def getMapPanePos_stop
      Point_add_subtract) (simp add: getMapPanePos_def)

lemma run_anim:
  "\<exists>a. panAnim (PosAnimation_run p d n0 n1 m) = Some a
      \<and> a_startPos a = getMapPanePos m \<and> a_offset a = Point_subtract p (getMapPanePos m)
      \<and> a_startTime a = n0 \<and> a_duration a = (case d of None \<Rightarrow> 1 / 4 | Some v \<Rightarrow> v) * 1000"
  by (simp add: PosAnimation_run_def PosAnimation_animate_def Let_def getMapPanePos_stop)

lemma run_pending:
  "n1 - n0 < (case d of None \<Rightarrow> 1 / 4 | Some v \<Rightarrow> v) * 1000 \<Longrightarrow>
   next_frame m \<in> set (frames (PosAnimation_run p d n0 n1 m))"
  by (simp add: PosAnimation_run_def PosAnimation_animate_def Let_def next_frame_stop)

lemma frame_ends:
  assumes "panAnim m = Some a" "h \<in> set (frames m)" "a_duration a \<le> now - a_startTime a"
  shows "getMapPanePos (run_frame h now m) = Point_add (a_startPos a) (a_offset a)"
  using assms by (simp add: run_frame_def PosAnimation_animate_def Let_def getMapPanePos_def)

lemma demo_map_pane:
  "getMapPanePos demo_map = Point 0 0"
  "mapPane_pos demo_map = Some (Point 0 0)"
  "panAnim demo_map = None"
  "next_frame demo_map = 1"
  by (simp_all add: demo_map_def Map_new_def getMapPanePos_def setView_def resetView_def
      updateLayers_def Map_fire_def Let_def)

lemma armed_after_run:
  assumes "n1 - n0 < (case d of None \<Rightarrow> 1 / 4 | Some v \<Rightarrow> v) * 1000"
  shows "armed (getMapPanePos m) (Point_subtract p (getMapPanePos m)) n0
           ((case d of None \<Rightarrow> 1 / 4 | Some v \<Rightarrow> v) * 1000) (PosAnimation_run p d n0 n1 m)"
  using assms
  by (simp add: armed_def PosAnimation_run_def PosAnimation_animate_def Let_def
      getMapPanePos_stop split: option.splits)

lemma armed_fire: "armed sp off t0 dur (Map_fire ty m) = armed sp off t0 dur m"
  by (simp add: armed_def Map_fire_def split: option.splits)

lemma armed_step:
  assumes "armed sp off t0 dur m" "t - t0 < dur"
  shows "armed sp off t0 dur (run_armed t m)"
  using assms
  by (auto simp: armed_def run_armed_def run_frame_def PosAnimation_animate_def Let_def
      split: option.splits)

lemma armed_steps:
  assumes "armed sp off t0 dur m" "\<forall>t \<in> set ts. t - t0 < dur"
  shows "armed sp off t0 dur (fold run_armed ts m)"
  using assms by (induction ts arbitrary: m) (simp_all add: armed_step)

lemma armed_last:
  assumes "armed sp off t0 dur m" "dur \<le> now - t0"
  shows "getMapPanePos (run_armed now m) = Point_add sp off"
  using assms
  by (auto simp: armed_def run_armed_def run_frame_def PosAnimation_animate_def Let_def
      getMapPanePos_def split: option.splits)

lemma pan_frames:
  assumes a: "animate opts \<noteq> Some False"
    and b: "n1 - n0 < (case duration opts of None \<Rightarrow> 1 / 4 | Some v \<Rightarrow> v) * 1000"
    and c: "\<forall>t \<in> set ts. t - n0 < (case duration opts of None \<Rightarrow> 1 / 4 | Some v \<Rightarrow> v) * 1000"
    and d: "(case duration opts of None \<Rightarrow> 1 / 4 | Some v \<Rightarrow> v) * 1000 \<le> now - n0"
  shows "getMapPanePos (run_armed now (fold run_armed ts (panBy ox oy opts n0 n1 m))) =
           Point_subtract (getMapPanePos m) (Point ox oy)"
proof -
  let ?target = "Point_subtract (getMapPanePos m) (Point ox oy)"
  let ?dur = "(case duration opts of None \<Rightarrow> 1 / 4 | Some v \<Rightarrow> v) * 1000"
  have "armed (getMapPanePos m) (Point_subtract ?target (getMapPanePos m)) n0 ?dur
          (panBy ox oy opts n0 n1 m)"
    using a armed_after_run[OF b] by (simp add: panBy_def Let_def armed_fire)
  then have "armed (getMapPanePos m) (Point_subtract ?target (getMapPanePos m)) n0 ?dur
          (fold run_armed ts (panBy ox oy opts n0 n1 m))"
    using c by (rule armed_steps)
  then show ?thesis using d by (simp add: armed_last Point_add_subtract)
qed

text \<open>
  C7 (amended). \<open>panBy\<close>, with the offset given as the array \<open>[ox, oy]\<close>, leaves
  \<open>center\<close>, \<open>zoom\<close> and \<open>pixelOrigin\<close> unchanged and fires \<open>moveend\<close> before it
  returns. When \<open>options.animate\<close> is \<open>false\<close> the pane is by then at its old position
  minus the offset. Otherwise the pan is animated: when \<open>moveend\<close> fires the pane is at
  \<open>start + (target - start) * (1 - (1 - t)\<^sup>2)\<close> with \<open>t = elapsed / duration\<close> (at the
  target only if the first step already finds the duration elapsed), and it reaches the
  old position minus the offset when the pending frame runs with the duration elapsed:
  the frame \<open>panBy\<close> itself requested, or, after any number of frames \<open>ts\<close> that ran
  before the duration had elapsed and each requested the next one, the frame then pending.
\<close>

theorem panBy_effect:
  "center (panBy ox oy opts n0 n1 m) = center m
   \<and> zoom (panBy ox oy opts n0 n1 m) = zoom m
   \<and> pixelOrigin (panBy ox oy opts n0 n1 m) = pixelOrigin m
   \<and> fired (panBy ox oy opts n0 n1 m) =
       fired m @ [(''moveend'', Evented_fire ''moveend'' (events m))]
   \<and> getMapPanePos (panBy ox oy opts n0 n1 m) =
       (let start = getMapPanePos m;
            target = Point_subtract start (Point ox oy);
            dur = (case duration opts of None \<Rightarrow> 1 / 4 | Some v \<Rightarrow> v) * 1000
        in if animate opts = Some False then target
           else if n1 - n0 < dur
           then Point_add start
                  (Point_multiplyBy (Point_subtract target start) (1 - (1 - (n1 - n0) / dur) ^ 2))
           else target)
   \<and> (animate opts \<noteq> Some False
        \<and> n1 - n0 < (case duration opts of None \<Rightarrow> 1 / 4 | Some v \<Rightarrow> v) * 1000
        \<and> (case duration opts of None \<Rightarrow> 1 / 4 | Some v \<Rightarrow> v) * 1000 \<le> now - n0
      \<longrightarrow> getMapPanePos (run_frame (next_frame m) now (panBy ox oy opts n0 n1 m)) =
            Point_subtract (getMapPanePos m) (Point ox oy))
   \<and> (animate opts \<noteq> Some False
        \<and> n1 - n0 < (case duration opts of None \<Rightarrow> 1 / 4 | Some v \<Rightarrow> v) * 1000
        \<and> (\<forall>t \<in> set ts. t - n0 < (case duration opts of None \<Rightarrow> 1 / 4 | Some v \<Rightarrow> v) * 1000)
        \<and> (case duration opts of None \<Rightarrow> 1 / 4 | Some v \<Rightarrow> v) * 1000 \<le> now - n0
      \<longrightarrow> getMapPanePos (run_armed now (fold run_armed ts (panBy ox oy opts n0 n1 m))) =
            Point_subtract (getMapPanePos m) (Point ox oy))"
proof -
  let ?dur = "(case duration opts of None \<Rightarrow> 1 / 4 | Some v \<Rightarrow> v) * 1000"
  let ?target = "Point_subtract (getMapPanePos m) (Point ox oy)"
  have pos: "getMapPanePos (Map_fire t s) = getMapPanePos s" for t s
    by (simp add: getMapPanePos_def Map_fire_def)
  have pane: "getMapPanePos (panBy ox oy opts n0 n1 m) =
       (if animate opts = Some False then ?target
        else if n1 - n0 < ?dur
        then Point_add (getMapPanePos m)
               (Point_multiplyBy (Point_subtract ?target (getMapPanePos m))
                  (1 - (1 - (n1 - n0) / ?dur) ^ 2))
        else ?target)"
    by (simp add: panBy_def Let_def pos run_pane) (simp add: getMapPanePos_def)
  have fin: "getMapPanePos (run_frame (next_frame m) now (panBy ox oy opts n0 n1 m)) = ?target"
    if a: "animate opts \<noteq> Some False" and b: "n1 - n0 < ?dur" and c: "?dur \<le> now - n0"
  proof -
    let ?r = "PosAnimation_run ?target (duration opts) n0 n1 m"
    obtain an where an: "panAnim ?r = Some an" "a_startPos an = getMapPanePos m"
      "a_offset an = Point_subtract ?target (getMapPanePos m)" "a_startTime an = n0"
      "a_duration an = ?dur"
      using run_anim[of ?target "duration opts" n0 n1 m] by blast
    have p: "panBy ox oy opts n0 n1 m = Map_fire ''moveend'' ?r"
      using a by (simp add: panBy_def Let_def)
    have 1: "panAnim (Map_fire ''moveend'' ?r) = Some an"
      using an by (simp add: Map_fire_def)
    have 2: "next_frame m \<in> set (frames (Map_fire ''moveend'' ?r))"
      using run_pending[OF b] by (simp add: Map_fire_def)
    have 3: "a_duration an \<le> now - a_startTime an"
      using an c by simp
    show ?thesis unfolding p
      by (simp only: frame_ends[OF 1 2 3] an Point_add_subtract)
  qed
  show ?thesis using pane fin pan_frames[of opts n1 n0 ts now ox oy m]
    by (simp add: panBy_frame Let_def)
qed

text \<open>
  The theorem at work on the demo map: an animated pan by \<open>[10, 0]\<close> started at time 0
  ends at \<open>(-10, 0)\<close> when its frame runs at 250 ms, and also when frames run at 100,
  200 and 250 ms; without animation the pane is there at once.
\<close>

theorem panBy_effect_witness:
  "(0::real) - 0 < 1 / 4 * 1000 \<and> (1::real) / 4 * 1000 \<le> 250 - 0
   \<and> (100::real) - 0 < 1 / 4 * 1000 \<and> (200::real) - 0 < 1 / 4 * 1000
   \<and> getMapPanePos (run_frame 1 250
         (panBy 10 0 \<lparr>animate = None, duration = None\<rparr> 0 0 demo_map)) = Point (- 10) 0
   \<and> getMapPanePos (run_armed 250 (fold run_armed [100, 200]
         (panBy 10 0 \<lparr>animate = None, duration = None\<rparr> 0 0 demo_map))) = Point (- 10) 0
   \<and> getMapPanePos (panBy 10 0 \<lparr>animate = Some False, duration = None\<rparr> 0 0 demo_map) =
       Point (- 10) 0"
  using panBy_effect[of 10 0 "\<lparr>animate = None, duration = None\<rparr>" 0 0 demo_map 250
          "[100, 200]"]
        panBy_effect[of 10 0 "\<lparr>animate = Some False, duration = None\<rparr>" 0 0 demo_map 250 "[]"]
  by (simp add: demo_map_pane Point_subtract_def Point_def)

text \<open>
  With the default options the pane has not moved when \<open>panBy\<close> returns and \<open>moveend\<close>
  has fired: both readings of the clock are the same millisecond, so the first step of the
  animation is at \<open>t = 0\<close>.
\<close>

theorem panBy_animated_counterexample:
  "getMapPanePos (panBy 10 0 \<lparr>animate = None, duration = None\<rparr> 0 0 demo_map) =
     getMapPanePos demo_map
   \<and> getMapPanePos (panBy 10 0 \<lparr>animate = None, duration = None\<rparr> 0 0 demo_map) \<noteq>
     Point_subtract (getMapPanePos demo_map) (Point 10 0)"
  by (simp add: panBy_def Let_def Map_fire_def PosAnimation_run_def PosAnimation_stop_def
      PosAnimation_animate_def demo_map_pane getMapPanePos_def Point_add_def
      Point_subtract_def Point_multiplyBy_def Point_def)

subsection \<open>Coordinates\<close>

text \<open>
  C4 (amended). On two numbers the constructor of \<open>LatLng\<close> fails, with the error
  \<open>Invalid LatLng\<close>, exactly when one of them is \<open>NaN\<close>; otherwise it succeeds and
  stores both unchanged, an infinite component included. In particular two finite
  numbers are always accepted and stored unchanged.
\<close>

theorem LatLng_new_fails_iff_NaN:
  "((\<exists>e. LatLng_new a b = Inl e) \<longleftrightarrow> (a = NaN \<or> b = NaN))
   \<and> (LatLng_new a b = Inl InvalidLatLng \<or> LatLng_new a b = Inr \<lparr>lat = a, lng = b\<rparr>)
   \<and> LatLng_new (Finite x) (Finite y) = Inr \<lparr>lat = Finite x, lng = Finite y\<rparr>"
  by (cases a; cases b) (simp_all add: LatLng_new_def isNaN_def)

text \<open>A component that is not a finite number, and a construction that succeeds.\<close>

theorem LatLng_new_infinite_counterexample:
  "\<not> isFinite PosInf
   \<and> LatLng_new PosInf (Finite 0) = Inr \<lparr>lat = PosInf, lng = Finite 0\<rparr>"
  by (simp add: LatLng_new_def isNaN_def isFinite_def)

text \<open>
  In exact arithmetic \<open>unproject\<close> undoes \<open>project\<close> on the latitudes that are not
  clamped, at every zoom. What the source computes differs from this by the rounding of
  each floating-point operation, which the real numbers do not show.
\<close>

lemma arctan_sqrt_sin:
  assumes "- (pi / 2) < p" "p < pi / 2"
  shows "arctan (sqrt ((1 + sin p) / (1 - sin p))) = pi / 4 + p / 2"
proof -
  let ?x = "pi / 4 + p / 2"
  have x: "0 < ?x" "?x < pi / 2" using assms by simp_all
  have c: "0 < cos ?x" using x by (intro cos_gt_zero_pi) simp_all
  have s: "0 < sin ?x" using x by (intro sin_gt_zero) simp_all
  have t: "0 < tan ?x" using c s by (simp add: tan_def)
  have "cos (2 * ?x) = - sin p"
    by (simp add: algebra_simps cos_add)
  then have c2: "(cos ?x)\<^sup>2 = (1 - sin p) / 2" and s2: "(sin ?x)\<^sup>2 = (1 + sin p) / 2"
    using cos_double_cos[of ?x] cos_double_sin[of ?x] by (simp_all add: field_simps)
  have "(tan ?x)\<^sup>2 = (1 + sin p) / (1 - sin p)"
  proof -
    have h: "(a / 2) / (b / 2) = a / b" for a b :: real by simp
    show ?thesis by (simp only: tan_def power_divide c2 s2 h)
  qed
  then have "sqrt ((1 + sin p) / (1 - sin p)) = tan ?x"
    using t by (intro real_sqrt_unique) simp_all
  moreover have "arctan (tan ?x) = ?x" using x by (intro arctan_tan) simp_all
  ultimately show ?thesis by simp
qed

lemma projection_roundtrip_exact:
  assumes "\<bar>lat ll\<bar> \<le> MAX_LATITUDE"
  shows "Map_unproject (Map_project ll z) z = ll"
proof -
  let ?p = "lat ll * (pi / 180)"
  have k: "CRS_scale z / earthRadius \<noteq> 0" by (simp add: CRS_scale_def earthRadius_def)
  have la: "max (min MAX_LATITUDE (lat ll)) (- MAX_LATITUDE) = lat ll" using assms by simp
  have "\<bar>lat ll\<bar> < 90" using assms by (simp add: MAX_LATITUDE_def)
  then have "\<bar>?p\<bar> < 90 * (pi / 180)"
    by (simp add: abs_mult)
  then have p: "- (pi / 2) < ?p" "?p < pi / 2" by (simp_all add: abs_less_iff)
  have "0 < cos ?p" using p by (intro cos_gt_zero_pi) simp_all
  then have "0 < (cos ?p)\<^sup>2" by simp
  then have "(sin ?p)\<^sup>2 < 1" using sin_cos_squared_add[of ?p] by linarith
  then have "\<bar>sin ?p\<bar> < 1" by (simp add: abs_square_less_1)
  then have sn: "sin ?p < 1" "- 1 < sin ?p" by (simp_all add: abs_less_iff)
  then have q: "0 < (1 + sin ?p) / (1 - sin ?p)" by simp
  have "exp (ln ((1 + sin ?p) / (1 - sin ?p)) / 2) =
          exp (ln (sqrt ((1 + sin ?p) / (1 - sin ?p))))"
    using q by (simp only: ln_sqrt)
  also have "\<dots> = sqrt ((1 + sin ?p) / (1 - sin ?p))"
    using q by (intro exp_ln) simp
  finally have "exp (ln ((1 + sin ?p) / (1 - sin ?p)) / 2) =
      sqrt ((1 + sin ?p) / (1 - sin ?p))" .
  then have e: "arctan (exp (ln ((1 + sin ?p) / (1 - sin ?p)) / 2)) = pi / 4 + ?p / 2"
    using arctan_sqrt_sin[OF p] by simp
  show ?thesis
    using k e
    by (simp add: Map_unproject_def Map_project_def project_def unproject_def Let_def la
        Point_multiplyBy_def Point_divideBy_def Point_def earthRadius_def field_simps)
qed

subsection \<open>Tile x wrap-around\<close>


lemma Math_pow2_nat: "Math_pow2 (Finite (of_nat n)) = (if n \<le> 1023 then Finite (2 ^ n) else PosInf)"
  by (simp add: Math_pow2_def powr_realpow fl_pow2)


lemma js_rem_of_int:
  assumes "0 < b"
  shows "js_rem (of_int a) (of_int b) = of_int (a smod b)"
proof (cases "0 \<le> a")
  case True
  then have q: "0 \<le> (of_int a :: real) / of_int b" using assms by simp
  have f: "\<lfloor>(of_int a :: real) / of_int b\<rfloor> = a div b"
    by (simp add: floor_divide_of_int_eq)
  have "a smod b = a mod b" using True assms by (simp add: smod_mod_positive)
  also have "\<dots> = a - b * (a div b)" by (simp add: minus_mult_div_eq_mod)
  finally have "(of_int (a smod b) :: real) = of_int (a - b * (a div b))" by simp
  then show ?thesis using q f
    by (simp add: js_rem_def trunc_def)
next
  case False
  then have neg: "a < 0" by simp
  then have q: "\<not> 0 \<le> (of_int a :: real) / of_int b" using assms
    by (simp add: divide_less_0_iff not_le)
  have "\<lfloor>(of_int (- a) :: real) / of_int b\<rfloor> = (- a) div b"
    by (rule floor_divide_of_int_eq)
  then have c: "\<lceil>(of_int a :: real) / of_int b\<rceil> = - ((- a) div b)"
    by (simp add: ceiling_def)
  have "a smod b = - ((- a) mod b)" using neg assms
    by (simp add: smod_int_alt_def sgn_if abs_if)
  also have "\<dots> = - ((- a) - b * ((- a) div b))" by (simp add: minus_mult_div_eq_mod)
  also have "\<dots> = a - b * (- ((- a) div b))" by simp
  finally have "(of_int (a smod b) :: real) = of_int (a - b * (- ((- a) div b)))" by simp
  then show ?thesis using q c
    by (simp add: js_rem_def trunc_def)
qed

lemma smod_add_smod:
  assumes "(0::int) < w"
  shows "(x smod w + w) smod w = x mod w"
proof (cases "0 \<le> x")
  case True
  then have a: "x smod w = x mod w" using assms by (simp add: smod_mod_positive)
  have "0 \<le> x mod w + w" using assms by (simp add: add_nonneg_nonneg)
  then have "(x mod w + w) smod w = (x mod w + w) mod w"
    using assms by (simp add: smod_mod_positive)
  then show ?thesis using a by simp
next
  case False
  then have neg: "x < 0" by simp
  have s: "x smod w = - ((- x) mod w)" using neg assms
    by (simp add: smod_int_alt_def sgn_if abs_if)
  have "(- x) mod w < w" using assms by simp
  then have "0 \<le> x smod w + w" using s by simp
  then have "(x smod w + w) smod w = (x smod w + w) mod w"
    using assms by (simp add: smod_mod_positive)
  also have "\<dots> = (- ((- x) mod w)) mod w" using s by simp
  also have "\<dots> = x mod w" by (simp add: mod_minus_eq)
  finally show ?thesis .
qed


lemma wrapX_exact:
  assumes "z \<le> 52"
  shows "wrapX (Finite (of_int k)) (Finite (of_nat z)) = Finite (of_int (k mod 2 ^ z))"
proof -
  let ?W = "(2::int) ^ z"
  have W: "0 < ?W" by simp
  have p: "Math_pow2 (Finite (of_nat z)) = Finite (of_int ?W)"
    using assms by (simp add: Math_pow2_nat)
  have "k smod ?W \<in> {- \<bar>?W\<bar> + 1 .. \<bar>?W\<bar> - 1}" by (rule smod_int_range) simp
  then have b: "0 < k smod ?W + ?W" "k smod ?W + ?W < 2 * ?W" by simp_all
  have "2 * ?W = 2 ^ Suc z" by simp
  also have "\<dots> \<le> (2::int) ^ 53" using assms by (intro power_increasing) simp_all
  finally have "\<bar>k smod ?W + ?W\<bar> \<le> 2 ^ 53" using b by simp
  then have f: "fl (of_int (k smod ?W + ?W)) = Finite (of_int (k smod ?W + ?W))"
    by (rule fl_int)
  have 1: "js_mod (Finite (of_int k)) (Finite (of_int ?W)) = Finite (of_int (k smod ?W))"
    using W by (simp add: js_mod_def js_rem_of_int del: of_int_power)
  have 2: "js_add (Finite (of_int (k smod ?W))) (Finite (of_int ?W)) =
      Finite (of_int (k smod ?W + ?W))"
    using f by (simp add: js_add_def del: of_int_power of_int_add) (simp only: of_int_add[symmetric])
  have 3: "js_mod (Finite (of_int (k smod ?W + ?W))) (Finite (of_int ?W)) =
      Finite (of_int ((k smod ?W + ?W) smod ?W))"
    using W by (simp add: js_mod_def js_rem_of_int del: of_int_power of_int_add)
  show ?thesis
    unfolding wrapX_def Let_def p 1 2 3 by (simp only: smod_add_smod[OF W])
qed

lemma fl_tie_gen:
  "fl (2 ^ (n + 54) - 2 ^ n) = (if n + 54 \<le> 1023 then Finite (2 ^ (n + 54)) else PosInf)"
proof -
  let ?t = "(2::real) ^ (n + 54) - 2 ^ n"
  have t: "?t = 2 ^ n * (2 ^ 54 - 1)" by (simp add: power_add algebra_simps)
  have lo: "2 ^ (n + 53) \<le> ?t" unfolding t by (simp add: power_add)
  have hi: "?t < 2 ^ Suc (n + 53)" unfolding t by (simp add: power_add)
  have tp: "0 < ?t" using lo by (meson less_le_trans zero_less_numeral zero_less_power)
  have "\<lfloor>log 2 ?t\<rfloor> = int (n + 53)" using lo hi by (rule floor_log2)
  then have "ulp ?t = 2 powr of_int (int n + 1)" using tp by (simp add: ulp_def add.commute)
  also have "\<dots> = 2 powr of_nat (Suc n)" by (simp add: add.commute)
  also have "\<dots> = 2 ^ Suc n" by (simp only: powr_realpow zero_less_numeral)
  finally have u: "ulp ?t = 2 * 2 ^ n" by simp
  have q: "?t / (2 * 2 ^ n) = of_int (2 ^ 53 - 1) + 1 / 2" unfolding t by simp
  have fq: "\<lfloor>?t / (2 * 2 ^ n)\<rfloor> = 2 ^ 53 - 1" unfolding q by (simp add: floor_eq_iff)
  have r: "round_even (?t / (2 * 2 ^ n)) = 2 ^ 53"
    unfolding round_even_def Let_def fq unfolding q by simp
  have v: "of_int (round_even (?t / ulp ?t)) * ulp ?t = 2 ^ (n + 54)"
    unfolding u r by (simp add: power_add)
  have l: "(dbl_limit \<le> \<bar>(2::real) ^ (n + 54)\<bar>) = (1024 \<le> n + 54)"
  proof -
    have "\<bar>(2::real) ^ (n + 54)\<bar> = 2 ^ (n + 54)" by simp
    moreover have "((2::real) ^ 1024 \<le> 2 ^ (n + 54)) = (1024 \<le> n + 54)"
      by (rule power_increasing_iff) simp
    ultimately show ?thesis unfolding dbl_limit_def by (simp only:)
  qed
  have "?t \<noteq> 0" using tp by simp
  then show ?thesis unfolding fl_def Let_def v l using tp by auto
qed




text \<open>
  At zoom 1023 the sum can round up to \<open>Infinity\<close>, and from zoom 54 on the rounding of
  the sum shows in the result: \<open>wrapX(-1, 54)\<close> is \<open>0\<close>, not \<open>2\<^sup>5\<^sup>4 - 1\<close>.
\<close>

lemma wrapX_zoom_1023: "wrapX (Finite (2 ^ 1023 - 2 ^ 970)) (Finite 1023) = NaN"
proof -
  let ?w = "(2::real) ^ 1023"
  let ?x = "?w - 2 ^ 970"
  have "Math_pow2 (Finite (of_nat 1023)) = Finite ?w" by (simp only: Math_pow2_nat) simp
  moreover have "(of_nat 1023 :: real) = 1023" by simp
  ultimately have p: "Math_pow2 (Finite 1023) = Finite ?w" by (simp only:)
  have w: "0 < ?w" by (rule zero_less_power) simp
  have "(2::real) ^ 970 < 2 ^ 1023" by (rule power_strict_increasing) simp_all
  moreover have "(0::real) < 2 ^ 970" by (rule zero_less_power) simp
  ultimately have x: "0 \<le> ?x" "?x < ?w" by linarith+
  then have "0 \<le> ?x / ?w" "?x / ?w < 1" using w by (simp_all only: zero_le_divide_iff divide_less_eq_1_pos) auto
  then have "\<lfloor>?x / ?w\<rfloor> = 0" by (simp only: floor_eq_iff) simp
  then have r1: "js_rem ?x ?w = ?x"
    using \<open>0 \<le> ?x / ?w\<close> by (simp only: js_rem_def trunc_def if_True)
  have a: "js_mod (Finite ?x) (Finite ?w) = Finite ?x"
    using w by (simp only: js_mod_def jsnum.case r1) auto
  have e1: "(970::nat) + 54 = 1024" and e2: "\<not> (1024::nat) \<le> 1023" by simp_all
  have "(2::real) ^ Suc 1023 = 2 * 2 ^ 1023" by (rule power_Suc)
  moreover have "Suc 1023 = 1024" by simp
  ultimately have "(2::real) ^ 1024 = 2 * 2 ^ 1023" by (simp only:)
  then have s: "?x + ?w = 2 ^ 1024 - 2 ^ 970" by linarith
  have f: "fl (2 ^ 1024 - 2 ^ 970) = PosInf"
    using fl_tie_gen[of 970] unfolding e1 by (simp only: e2 if_False)
  have b: "js_add (Finite ?x) (Finite ?w) = PosInf"
    by (simp only: js_add_def jsnum.case s f)
  show ?thesis unfolding wrapX_def Let_def p a b by (simp only: js_mod_def jsnum.case)
qed

lemma wrapX_zoom_54: "wrapX (Finite (- 1)) (Finite 54) = Finite 0"
proof -
  let ?w = "(2::real) ^ 54"
  have "Math_pow2 (Finite (of_nat 54)) = Finite ?w" by (simp only: Math_pow2_nat) simp
  then have p: "Math_pow2 (Finite 54) = Finite ?w" by simp
  have w: "?w \<noteq> 0" by simp
  have r1: "js_rem (- 1) ?w = - 1"
    by (simp add: js_rem_def trunc_def ceiling_eq_iff)
  have r2: "js_rem ?w ?w = 0"
    by (simp add: js_rem_def trunc_def)
  have a: "js_mod (Finite (- 1)) (Finite ?w) = Finite (- 1)"
    using w by (simp only: js_mod_def jsnum.case if_False r1)
  have "- 1 + ?w = ?w - 1" by simp
  then have b: "js_add (Finite (- 1)) (Finite ?w) = Finite ?w"
    using fl_tie_gen[of 0] by (simp add: js_add_def)
  have c: "js_mod (Finite ?w) (Finite ?w) = Finite 0"
    using w by (simp only: js_mod_def jsnum.case if_False r2)
  show ?thesis unfolding wrapX_def Let_def p a b c ..
qed

subsection \<open>Unregistering listeners\<close>

text \<open>
  What \<open>off\<close> does when the loop is reached: without arguments every type is deleted;
  with the types in an array, a type is deleted when no function is given, and loses
  exactly the listeners of the given function otherwise, the other types staying as they
  are.
\<close>

lemma fold_delete_all: "fst ` set m \<subseteq> set ks \<Longrightarrow> fold AList.delete ks m = []"
proof (induction ks arbitrary: m)
  case Nil
  then show ?case by simp
next
  case (Cons k ks)
  have "fst ` set (AList.delete k m) \<subseteq> set ks"
    using Cons.prems by (auto simp: AList.delete_eq)
  then show ?case using Cons.IH by simp
qed

lemma off_no_arguments: "Evented_off TUndefined None (Some m) = Inr (Some [])"
proof -
  have "off_type None = AList.delete" by (rule ext)+ (simp add: off_type_def)
  then show ?thesis by (simp add: Evented_off_def off_types_def fold_delete_all)
qed

lemma off_array_type:
  "Evented_off (TArray [t]) None (Some m) = Inr (Some (AList.delete t m))"
  "Evented_off (TArray [t]) (Some f) (Some m) =
     Inr (Some (AList.update t
                  (filter (\<lambda>l. l_fn l \<noteq> f) (case map_of m t of None \<Rightarrow> [] | Some ls \<Rightarrow> ls))
                  m))"
  by (simp_all add: Evented_off_def off_types_def off_type_def split: option.splits)

lemma off_array_listeners:
  "Evented_off (TArray [t]) (Some f) (Some m) = Inr ev' \<Longrightarrow>
     Evented_fire t ev' = filter (\<lambda>l. l_fn l \<noteq> f) (Evented_fire t (Some m))
     \<and> (t' \<noteq> t \<longrightarrow> Evented_fire t' ev' = Evented_fire t' (Some m))"
  by (auto simp: off_array_type Evented_fire_def update_conv' split: option.splits)

text \<open>
  C8 (failing input). A listener registered with \<open>on('moveend', f)\<close> cannot be removed
  with \<open>off('moveend', f)\<close>, nor all listeners of the type with \<open>off('moveend')\<close>: with
  the type given as a string, as \<open>on\<close> takes it and as \<open>TileLayer.onRemove\<close> passes
  it, the call raises a TypeError before any listener is touched.
\<close>

theorem off_string_type_throws:
  "Evented_off (TString ''moveend'') (Some f) (Evented_on ''moveend'' f c ev) = Inl TypeError
   \<and> Evented_off (TString ''moveend'') None (Evented_on ''moveend'' f c ev) = Inl TypeError"
  by (simp add: Evented_off_def Evented_on_def off_types_def)

subsection \<open>The tile grid\<close>

lemma TileLayer_update_attached: "tl_attached l \<Longrightarrow> TileLayer_update m l = Inl TypeError"
  by (simp add: TileLayer_update_def getPixelBounds_def Bounds_new_def Bounds_extend_def
      Point_call_def Let_def)

text \<open>
  C5 (failing input). \<open>Point\<close> has no \<open>floor\<close> and no \<open>ceil\<close>: the calls raise a
  TypeError, and so does every \<open>_update\<close> of a layer that is on a map, whatever the pixel
  bounds.
\<close>

theorem Point_floor_ceil_missing:
  "Point_call ''floor'' p = Inl TypeError
   \<and> Point_call ''ceil'' p = Inl TypeError
   \<and> TileLayer_update m (l\<lparr>tl_attached := True\<rparr>) = Inl TypeError"
  by (simp add: TileLayer_update_attached) (simp add: Point_call_def)

text \<open>
  The loops of \<open>_update\<close> behind the two calls, on given tile index bounds: the keys
  after the creation loop, and what the two loops do to tiles whose keys are all required.
\<close>

lemma add_step_keys:
  "fst ` set (if map_of ts k = None then ts @ [(k, v)] else ts) = insert k (fst ` set ts)"
  by (cases "k \<in> fst ` set ts") (simp_all add: map_of_eq_None_iff insert_absorb)

lemma add_new_keys: "fst ` set (add_new l req ts) = fst ` set ts \<union> fst ` set req"
  unfolding add_new_def
proof (induction req arbitrary: ts)
  case Nil
  then show ?case by simp
next
  case (Cons kc req)
  show ?case
    by (simp only: fold_simps Cons.IH add_step_keys list.set image_insert) blast
qed

lemma add_new_present: "fst ` set req \<subseteq> fst ` set ts \<Longrightarrow> add_new l req ts = ts"
  unfolding add_new_def
proof (induction req arbitrary: ts)
  case Nil
  then show ?case by simp
next
  case (Cons kc req)
  then have "fst kc \<in> fst ` set ts" by simp
  then have "map_of ts (fst kc) \<noteq> None" by (simp add: map_of_eq_None_iff)
  then show ?case using Cons by auto
qed

lemma remove_old_keys: "fst ` set (remove_old req ts) \<subseteq> fst ` set req"
proof
  fix k assume "k \<in> fst ` set (remove_old req ts)"
  then obtain kt where "kt \<in> set ts" "map_of req (fst kt) \<noteq> None" "k = fst kt"
    by (auto simp: remove_old_def)
  then show "k \<in> fst ` set req" by (simp add: map_of_eq_None_iff)
qed

lemma remove_old_present: "fst ` set ts \<subseteq> fst ` set req \<Longrightarrow> remove_old req ts = ts"
  unfolding remove_old_def by (rule filter_True) (auto simp: map_of_eq_None_iff)

lemma reconcile_keys: "fst ` set (add_new l req (remove_old req ts)) = fst ` set req"
  using remove_old_keys[of req ts] by (auto simp: add_new_keys)

lemma reconcile_twice:
  "add_new l' req (remove_old req (add_new l req (remove_old req ts))) =
     add_new l req (remove_old req ts)"
  by (simp add: remove_old_present add_new_present reconcile_keys)

lemma update_tiles_twice:
  "update_tiles m z nw se (update_tiles m z nw se l) = update_tiles m z nw se l"
  by (simp add: update_tiles_def Let_def reconcile_twice)

text \<open>The layer of the demo page is on the map: its \<open>_update\<close> raises the TypeError.\<close>

lemma demo_layer_update: "TileLayer_update demo_map demo_layer = Inl TypeError"
proof -
  have "tl_attached demo_layer" by (simp add: demo_layer_def)
  then show ?thesis by (simp add: TileLayer_update_attached)
qed

text \<open>
  A pass that does something: on tile columns \<open>-1\<close> and \<open>0\<close> of row \<open>0\<close> at zoom 1, a
  layer without tiles gets the two tiles of the row, column \<open>-1\<close> wrapped to column 1.
\<close>

lemma wrapX_zoom_1: "wrapX (Finite (- 1)) (Finite 1) = Finite 1" "wrapX (Finite 0) (Finite 1) = Finite 0"
  using wrapX_exact[of 1 "- 1"] wrapX_exact[of 1 0] by simp_all

lemma range_incl_examples: "range_incl (- 1) 0 = [- 1, 0]" "range_incl 0 0 = [0]"
  by (simp_all add: range_incl_def upt_rec)

lemma tilesToLoad_example:
  "tilesToLoad (Point (- 1) 0) (Point 0 0) 1 =
     [((Finite 1, 0, 1), (Finite 1, 0, 1)), ((Finite 0, 0, 1), (Finite 0, 0, 1))]"
  by (simp add: tilesToLoad_def Point_def range_incl_examples wrapX_zoom_1 Let_def)

lemma update_tiles_example:
  "map fst (tl_tiles (update_tiles m 1 (Point (- 1) 0) (Point 0 0) (l\<lparr>tl_tiles := []\<rparr>))) =
     [(Finite 1, 0, 1), (Finite 0, 0, 1)]"
  by (simp add: update_tiles_def Let_def tilesToLoad_example remove_old_def add_new_def)

text \<open>
  C9. A second run of the reconciliation on an unchanged view removes no tile and adds no
  tile. For the loops of \<open>_update\<close>, on every tile index bounds, zoom and set of tiles
  \<open>ts\<close> resident before the first run: the tiles resident after the first run all pass
  the removal loop, the creation loop appends nothing to them, and their keys are the
  required keys; so a second pass returns the layer of the first. For \<open>_update\<close> as a
  whole: it returns at once on a layer that is on no map, and on a layer that is on a map
  it raises the TypeError of the missing \<open>floor\<close> before it reads or writes \<open>_tiles\<close>, so
  in both cases the layer after the call is the layer before it, and a second call finds
  the same layer and does the same.
\<close>

theorem TileLayer_update_twice:
  "TileLayer_update m l = (if tl_attached l then Inl TypeError else Inr l)
   \<and> (let req = tilesToLoad nwTile seTile z;
           resident = add_new l req (remove_old req ts)
       in remove_old req resident = resident
          \<and> add_new l' req resident = resident
          \<and> fst ` set resident = fst ` set req)
   \<and> update_tiles m z nwTile seTile (update_tiles m z nwTile seTile l) =
       update_tiles m z nwTile seTile l"
proof -
  have "TileLayer_update m l = (if tl_attached l then Inl TypeError else Inr l)"
    by (simp add: TileLayer_update_attached) (simp add: TileLayer_update_def)
  then show ?thesis
    by (simp add: Let_def remove_old_present add_new_present reconcile_keys update_tiles_twice)
qed

subsection \<open>Tile URLs\<close>

lemma digits_chars: "set (digits n) \<subseteq> set ''0123456789''"
proof (induction n rule: digits.induct)
  case (1 n)
  have m: "''0123456789'' ! (n mod 10) \<in> set ''0123456789''"
    by (rule nth_mem) simp
  show ?case
  proof (cases "n < 10")
    case True
    then have "''0123456789'' ! n \<in> set ''0123456789''" by (intro nth_mem) simp
    then show ?thesis using True by (subst digits.simps) simp
  next
    case False
    then show ?thesis using 1 m by (subst digits.simps) simp
  qed
qed

lemma digits_nonempty: "digits n \<noteq> []"
  by (subst digits.simps) simp

lemma plain_dec: "plain (dec i)"
  using digits_chars[of "nat i"] digits_chars[of "nat (- i)"] digits_nonempty
  by (auto simp: plain_def dec_def)

lemma rf_through:
  "CHR ''{'' \<notin> set r \<Longrightarrow>
   replace_first (CHR ''{'' # p) rep (r @ s) = r @ replace_first (CHR ''{'' # p) rep s"
  by (induction r) auto

lemma rf_if_through:
  "plain r \<Longrightarrow> rf_if d (CHR ''{'' # p) rep (r @ s) = r @ rf_if d (CHR ''{'' # p) rep s"
  by (simp add: rf_if_def rf_through plain_def)

lemma rf_if_other:
  "j \<noteq> k \<Longrightarrow> k \<noteq> CHR ''{'' \<Longrightarrow>
   rf_if d [CHR ''{'', j, CHR ''}''] rep (CHR ''{'' # k # CHR ''}'' # t) =
     CHR ''{'' # k # CHR ''}'' # rf_if d [CHR ''{'', j, CHR ''}''] rep t"
  by (simp add: rf_if_def)

lemma rf_if_True: "rf_if True pat rep s = s"
  by (simp add: rf_if_def)

lemma rf_if_hit: "rf_if False [a, b, e] rep (a # b # e # t) = rep @ t"
  by (simp add: rf_if_def)

lemma rf_if_miss:
  "d \<or> \<not> prefix pat (c # s) \<Longrightarrow> rf_if d pat rep (c # s) = c # rf_if d pat rep s"
  by (auto simp: rf_if_def)

text \<open>
  A replacement by a plain string cannot bring a placeholder letter and a closing brace
  to the front of the text.
\<close>

lemma rf_keeps_tail:
  assumes "prefix [k, CHR ''}''] (replace_first (CHR ''{'' # p) r s)"
      and "r \<noteq> []" and "hd r \<noteq> k" and "hd r \<noteq> CHR ''}''" and "k \<noteq> CHR ''{''"
  shows "prefix [k, CHR ''}''] s"
proof (cases s)
  case Nil
  then show ?thesis using assms by simp
next
  case (Cons a s')
  show ?thesis
  proof (cases "prefix (CHR ''{'' # p) (a # s')")
    case True
    then show ?thesis using assms Cons by (cases r) auto
  next
    case False
    then have 1: "a = k" "prefix [CHR ''}''] (replace_first (CHR ''{'' # p) r s')"
      using assms Cons by auto
    show ?thesis
    proof (cases s')
      case Nil
      then show ?thesis using 1 by simp
    next
      case (Cons b s'')
      then show ?thesis using 1 assms \<open>s = a # s'\<close> by (cases r) (auto split: if_splits)
    qed
  qed
qed

lemma rf_if_keeps:
  assumes "\<not> prefix [CHR ''{'', k, CHR ''}''] (c # s)" and "plain r" and "k \<in> set ''xyz''"
  shows "\<not> prefix [CHR ''{'', k, CHR ''}''] (c # rf_if d (CHR ''{'' # p) r s)"
proof
  assume a: "prefix [CHR ''{'', k, CHR ''}''] (c # rf_if d (CHR ''{'' # p) r s)"
  show False
  proof (cases d)
    case True
    then show ?thesis using a assms by (simp add: rf_if_def)
  next
    case False
    then have "c = CHR ''{''" "prefix [k, CHR ''}''] (replace_first (CHR ''{'' # p) r s)"
      using a by (auto simp: rf_if_def)
    moreover have "r \<noteq> []" "hd r \<noteq> k" "hd r \<noteq> CHR ''}''" "k \<noteq> CHR ''{''"
      using assms(2,3) by (cases r; auto simp: plain_def)+
    ultimately have "prefix [k, CHR ''}''] s" using rf_keeps_tail by blast
    then show ?thesis using assms(1) \<open>c = CHR ''{''\<close> by simp
  qed
qed

lemma seq_eq_scan:
  assumes "plain sx" "plain sy" "plain sz"
  shows "rf_if dz ''{z}'' sz (rf_if dy ''{y}'' sy (rf_if dx ''{x}'' sx s)) =
         substitute_first dx dy dz sx sy sz s"
  using assms
proof (induction dx dy dz sx sy sz s rule: substitute_first.induct)
  case (1 dx dy dz sx sy sz)
  then show ?case by (simp add: rf_if_def)
next
  case (2 dx dy dz sx sy sz c s)
  note pl = "2.prems"
  consider (X) "\<not> dx \<and> prefix ''{x}'' (c # s)"
    | (Y) "\<not> (\<not> dx \<and> prefix ''{x}'' (c # s))" "\<not> dy \<and> prefix ''{y}'' (c # s)"
    | (Z) "\<not> (\<not> dx \<and> prefix ''{x}'' (c # s))" "\<not> (\<not> dy \<and> prefix ''{y}'' (c # s))"
          "\<not> dz \<and> prefix ''{z}'' (c # s)"
    | (N) "\<not> (\<not> dx \<and> prefix ''{x}'' (c # s))" "\<not> (\<not> dy \<and> prefix ''{y}'' (c # s))"
          "\<not> (\<not> dz \<and> prefix ''{z}'' (c # s))"
    by blast
  then show ?case
  proof cases
    case X
    then obtain t where t: "c # s = ''{x}'' @ t" by (auto simp: prefix_def)
    then have c: "c = CHR ''{''" and s: "s = CHR ''x'' # CHR ''}'' # t" by simp_all
    have dx: "dx = False" using X by simp
    have ih: "rf_if dz ''{z}'' sz (rf_if dy ''{y}'' sy t) =
        substitute_first True dy dz sx sy sz t"
      using "2.IH"(1)[OF X pl] s by (simp add: rf_if_True)
    show ?thesis unfolding c s dx using pl ih
      by (simp add: rf_if_hit rf_if_through)
  next
    case Y
    then obtain t where t: "c # s = ''{y}'' @ t" by (auto simp: prefix_def)
    then have c: "c = CHR ''{''" and s: "s = CHR ''y'' # CHR ''}'' # t" by simp_all
    have dy: "dy = False" using Y by simp
    have ih: "rf_if dz ''{z}'' sz (rf_if dx ''{x}'' sx t) =
        substitute_first dx True dz sx sy sz t"
      using "2.IH"(2)[OF Y pl] s by (simp add: rf_if_True)
    show ?thesis unfolding c s dy using pl ih
      by (simp add: rf_if_hit rf_if_through rf_if_other)
  next
    case Z
    then obtain t where t: "c # s = ''{z}'' @ t" by (auto simp: prefix_def)
    then have c: "c = CHR ''{''" and s: "s = CHR ''z'' # CHR ''}'' # t" by simp_all
    have dz: "dz = False" using Z by simp
    have ih: "rf_if dy ''{y}'' sy (rf_if dx ''{x}'' sx t) =
        substitute_first dx dy True sx sy sz t"
      using "2.IH"(3)[OF Z pl] s by (simp add: rf_if_True)
    show ?thesis unfolding c s dz using pl ih
      by (simp add: rf_if_hit rf_if_through rf_if_other)
  next
    case N
    have x: "dx \<or> \<not> prefix ''{x}'' (c # s)" using N(1) by blast
    have y0: "dy \<or> \<not> prefix ''{y}'' (c # s)" using N(2) by blast
    have z0: "dz \<or> \<not> prefix ''{z}'' (c # s)" using N(3) by blast
    have 1: "rf_if dx ''{x}'' sx (c # s) = c # rf_if dx ''{x}'' sx s"
      using rf_if_miss[OF x] .
    have y: "dy \<or> \<not> prefix ''{y}'' (c # rf_if dx ''{x}'' sx s)"
      using y0 rf_if_keeps[of "CHR ''y''" c s sx dx "''x}''"] pl by auto
    have 2: "rf_if dy ''{y}'' sy (c # rf_if dx ''{x}'' sx s) =
        c # rf_if dy ''{y}'' sy (rf_if dx ''{x}'' sx s)"
      using rf_if_miss[OF y] .
    have "dz \<or> \<not> prefix ''{z}'' (c # rf_if dx ''{x}'' sx s)"
      using z0 rf_if_keeps[of "CHR ''z''" c s sx dx "''x}''"] pl by auto
    then have z: "dz \<or> \<not> prefix ''{z}'' (c # rf_if dy ''{y}'' sy (rf_if dx ''{x}'' sx s))"
      using rf_if_keeps[of "CHR ''z''" c "rf_if dx ''{x}'' sx s" sy dy "''y}''"] pl by auto
    have 3: "rf_if dz ''{z}'' sz (c # rf_if dy ''{y}'' sy (rf_if dx ''{x}'' sx s)) =
        c # rf_if dz ''{z}'' sz (rf_if dy ''{y}'' sy (rf_if dx ''{x}'' sx s))"
      using rf_if_miss[OF z] .
    have R: "substitute_first dx dy dz sx sy sz (c # s) =
        c # substitute_first dx dy dz sx sy sz s"
      by (simp only: substitute_first.simps N if_False)
    show ?thesis unfolding 1 2 3 R using "2.IH"(4)[OF N pl] by simp
  qed
qed

lemma substitute_first_done: "substitute_first True True True sx sy sz s = s"
  by (induction s) simp_all

lemma dec_examples: "dec 3 = ''3''" "dec 5 = ''5''" "dec 4 = ''4''" "dec (- 12) = ''-12''"
  by (simp_all add: dec_def digits.simps)

text \<open>
  C10. For every template, and the decimal numerals of the tile's integer coordinates,
  the URL built by the three successive \<open>replace\<close> calls is the template with the first
  \<open>{x}\<close>, the first \<open>{y}\<close> and the first \<open>{z}\<close> substituted and every later occurrence
  of a placeholder copied as it stands.
\<close>

theorem getTileUrl_first_occurrences:
  "getTileUrl url \<lparr>cx = of_int a, cy = of_int b, cz = of_int c\<rparr> =
     substitute_first False False False (dec a) (dec b) (dec c) url"
  using seq_eq_scan[OF plain_dec plain_dec plain_dec,
      where dx = False and dy = False and dz = False]
  by (simp add: getTileUrl_def replace_xyz_def Number_toString_def rf_if_def)

text \<open>
  Two templates: the one of the scenario in the testable properties, and one that repeats
  its placeholders.
\<close>

lemma getTileUrl_examples:
  "getTileUrl ''https://x/{z}/{x}/{y}.png'' \<lparr>cx = 3, cy = 5, cz = 4\<rparr> = ''https://x/4/3/5.png''"
  "getTileUrl ''{x}/{x}/{y}{z}{z}'' \<lparr>cx = 3, cy = 5, cz = 4\<rparr> = ''3/{x}/54{z}''"
  by (simp_all add: getTileUrl_def replace_xyz_def Number_toString_def dec_examples)

end
